theory Spec2Isabelle
  imports Main "HOL-Library.Word"
begin

unbundle bit_operations_syntax

section \<open>Data model of \<^verbatim>\<open>sdk/Windows/SMXDevice.cpp\<close>\<close>

text \<open>
  Bytes of a \<^verbatim>\<open>std::string\<close> are 8-bit words, the elements of
  \<^verbatim>\<open>vector<uint16_t>\<close> are 16-bit words and \<^verbatim>\<open>GetTickCount()\<close>
  is a 32-bit word, so that every truncation and wrap-around of the C++ is the one of
  the word type.
\<close>

type_synonym byte = "8 word"
type_synonym packet = "byte list"
type_synonym uint16_t = "16 word"
type_synonym int16_t = "16 word"
type_synonym uint32_t = "32 word"

subsection \<open>\<^verbatim>\<open>ReadDataForPanel\<close> (lines 15-41)\<close>

text \<open>
  The inner loop \<^verbatim>\<open>for(int j = 0; j < 8; ++j)\<close>. Its state is the loop counter,
  the cursor \<^verbatim>\<open>m_iBit\<close> and the byte \<^verbatim>\<open>result\<close>. The word
  \<^verbatim>\<open>data[m_iBit]\<close> is promoted to a 32-bit \<^verbatim>\<open>int\<close> before it is masked with
  \<^verbatim>\<open>1 << iPanel\<close>, and the masked value is converted to \<^verbatim>\<open>bool\<close>.
\<close>

function read_byte_loop :: "uint16_t list \<Rightarrow> nat \<Rightarrow> nat \<Rightarrow> nat \<Rightarrow> byte \<Rightarrow> nat \<times> byte" where
  "read_byte_loop data iPanel j m_iBit result =
     (if j < 8 then
        (let bit_read = (if m_iBit < length data
                         then (ucast (data ! m_iBit) AND push_bit iPanel (1 :: 32 word)) \<noteq> 0
                         else False);
             m_iBit' = (if m_iBit < length data then m_iBit + 1 else m_iBit);
             result' = result OR push_bit j (of_bool bit_read)
         in read_byte_loop data iPanel (j + 1) m_iBit' result')
      else (m_iBit, result))"
  by pat_completeness auto
termination
  by (relation "measure (\<lambda>(data, iPanel, j, m_iBit, result). 8 - j)") auto

declare read_byte_loop.simps [simp del]

text \<open>
  The outer loop \<^verbatim>\<open>for(int i = 0; i < iOutSize; ++i)\<close>; every iteration stores one
  byte through \<^verbatim>\<open>*p++\<close>, so the output buffer is the list of the bytes stored.
\<close>

function read_panel_loop :: "uint16_t list \<Rightarrow> nat \<Rightarrow> nat \<Rightarrow> nat \<Rightarrow> nat \<Rightarrow> byte list \<Rightarrow> byte list" where
  "read_panel_loop data iPanel iOutSize i m_iBit out =
     (if i < iOutSize then
        (case read_byte_loop data iPanel 0 m_iBit 0 of
           (m_iBit', result) \<Rightarrow> read_panel_loop data iPanel iOutSize (i + 1) m_iBit' (out @ [result]))
      else out)"
  by pat_completeness auto
termination
  by (relation "measure (\<lambda>(data, iPanel, iOutSize, i, m_iBit, out). iOutSize - i)") auto

declare read_panel_loop.simps [simp del]

definition ReadDataForPanel :: "uint16_t list \<Rightarrow> nat \<Rightarrow> nat \<Rightarrow> byte list" where
  "ReadDataForPanel data iPanel iOutSize = read_panel_loop data iPanel iOutSize 0 0 []"

text \<open>
  The claim's reading of the format, to compare with the code: bit \<open>k\<close> of the stream of
  panel \<open>p\<close> is bit \<open>p\<close> of word \<open>k\<close>, and 0 beyond the last word.
\<close>

definition spec_panel_bit :: "uint16_t list \<Rightarrow> nat \<Rightarrow> nat \<Rightarrow> bool" where
  "spec_panel_bit data p k = (k < length data \<and> bit (data ! k) p)"

subsection \<open>The transport, \<^verbatim>\<open>SMXDeviceConnection\<close>\<close>

text \<open>
  The function objects handed to \<^verbatim>\<open>SendCommandLocked\<close> as \<^verbatim>\<open>pComplete\<close>: none
  (the default argument), the lambda of \<^verbatim>\<open>SendConfig\<close> (line 304) and the lambda of
  \<^verbatim>\<open>FactoryReset\<close> (line 190).
\<close>

datatype completion = NoCompletion | SendConfigComplete | FactoryResetReadComplete

text \<open>
  Modelled from the spec: the class \<^verbatim>\<open>SMXDeviceConnection\<close> (SMXDeviceConnection.h and
  SMXDeviceConnection.cpp are not part of the sources at hand). The spec gives its
  interface: whether it is open, whether the identity has been read, the activation flag,
  a queue of whole received packets consumed one at a time, a queue of outbound commands
  each with its completion callback, and the input bitmask.
\<close>

record SMXDeviceConnection =
  conn_open :: bool
  conn_have_info :: bool
  conn_active :: bool
  conn_bP2 :: bool
  conn_read_buffers :: "packet list"
  conn_pending_commands :: "(packet \<times> completion) list"
  conn_input_state :: uint16_t

text \<open>Modelled from the spec: \<^verbatim>\<open>isOpen()\<close>, the transport reports an established connection.\<close>

definition conn_IsConnected :: "SMXDeviceConnection \<Rightarrow> bool" where
  "conn_IsConnected c = conn_open c"

text \<open>Modelled from the spec: connected, and the identity has been read.\<close>

definition conn_IsConnectedWithDeviceInfo :: "SMXDeviceConnection \<Rightarrow> bool" where
  "conn_IsConnectedWithDeviceInfo c = (conn_open c \<and> conn_have_info c)"

text \<open>
  Modelled from the spec: \<^verbatim>\<open>pollIncoming()\<close> returns one whole packet at a time, or
  nothing; a packet handed out is removed from the queue.
\<close>

definition conn_ReadPacket :: "SMXDeviceConnection \<Rightarrow> (packet \<times> SMXDeviceConnection) option" where
  "conn_ReadPacket c =
     (case conn_read_buffers c of
        [] \<Rightarrow> None
      | buf # bufs \<Rightarrow> Some (buf, c\<lparr>conn_read_buffers := bufs\<rparr>))"

text \<open>Modelled from the spec: \<^verbatim>\<open>sendRaw(bytes, onComplete)\<close> queues the command.\<close>

definition conn_SendCommand :: "packet \<Rightarrow> completion \<Rightarrow> SMXDeviceConnection \<Rightarrow> SMXDeviceConnection" where
  "conn_SendCommand cmd pComplete c =
     c\<lparr>conn_pending_commands := conn_pending_commands c @ [(cmd, pComplete)]\<rparr>"

text \<open>
  Modelled from the spec: \<^verbatim>\<open>close()\<close>. The connection is no longer open, its identity
  and activation flag are those of a new connection, and what was queued is dropped (the
  completion of a dropped command never fires).
\<close>

definition conn_Close :: "SMXDeviceConnection \<Rightarrow> SMXDeviceConnection" where
  "conn_Close c =
     c\<lparr>conn_open := False, conn_have_info := False, conn_active := False,
       conn_read_buffers := [], conn_pending_commands := [], conn_input_state := 0\<rparr>"

text \<open>Modelled from the spec: \<^verbatim>\<open>open(handle)\<close>, which succeeds or fails.\<close>

definition conn_Open :: "bool \<Rightarrow> SMXDeviceConnection \<Rightarrow> SMXDeviceConnection" where
  "conn_Open ok c = (if ok then c\<lparr>conn_open := True\<rparr> else c)"

subsection \<open>The device, \<^verbatim>\<open>SMXDevice\<close>\<close>

text \<open>
  \<^verbatim>\<open>SensorTestMode\<close> is an enumeration of SMX.h; a mode is also made from any byte of a
  packet by a cast (line 409), so a mode is an integer.
  Modelled from the spec: \<^verbatim>\<open>SensorTestMode_Off\<close> is the value 0 (SMX.h is not part of the
  sources at hand).
\<close>

type_synonym SensorTestMode = int

definition SensorTestMode_Off :: SensorTestMode where
  "SensorTestMode_Off = 0"

text \<open>
  \<^verbatim>\<open>SMXConfig\<close> is a fixed-size structure opaque to this file: it is its byte image,
  and \<^verbatim>\<open>sizeof\<close> of a configuration is the length of the image.
\<close>

type_synonym SMXConfig = "byte list"

datatype SMXUpdateCallbackReason =
  SMXUpdateCallback_Updated | SMXUpdateCallback_FactoryResetCommandComplete

text \<open>The three messages given to \<^verbatim>\<open>Log\<close> in this file.\<close>

datatype log_message =
  LogInvalidConfigurationPacket
| LogUnexpectedSensorData
| LogUnexpectedSensorMode SensorTestMode SensorTestMode

text \<open>
  Modelled from the spec: \<^verbatim>\<open>SMXSensorTestModeData\<close> of SMX.h, per panel a have-data
  flag, four signed 16-bit sensor readings, four bad-sensor flags and a DIP-switch value.
\<close>

record SMXSensorTestModeData =
  bHaveDataFromPanel :: "bool list"
  sensorLevel :: "int16_t list list"
  bBadSensorInput :: "bool list list"
  iDIPSwitchPerPanel :: "int list"

text \<open>
  The members of \<^verbatim>\<open>SMXDevice\<close> this file reads and writes. \<^verbatim>\<open>m_pUpdateCallback\<close>
  holds whether a callback is registered; \<open>callback_calls\<close>, \<open>log_lines\<close> and
  \<open>event_signals\<close> record the calls of the callback, of \<^verbatim>\<open>Log\<close> and of
  \<^verbatim>\<open>SetEvent\<close>, in order.
\<close>

record SMXDevice =
  m_pConnection :: SMXDeviceConnection
  m_hEvent :: bool
  m_pUpdateCallback :: bool
  m_bHaveConfig :: bool
  m_bSendConfig :: bool
  m_bSendingConfig :: bool
  config :: SMXConfig
  wanted_config :: SMXConfig
  m_SensorTestMode :: SensorTestMode
  m_WaitingForSensorTestModeResponse :: SensorTestMode
  m_SentSensorTestModeRequestAtTicks :: uint32_t
  m_HaveSensorTestModeData :: bool
  m_SensorTestData :: SMXSensorTestModeData
  callback_calls :: "(nat \<times> SMXUpdateCallbackReason) list"
  log_lines :: "log_message list"
  event_signals :: nat

definition Log :: "log_message \<Rightarrow> SMXDevice \<Rightarrow> SMXDevice" where
  "Log msg s = s\<lparr>log_lines := log_lines s @ [msg]\<rparr>"

text \<open>\<^verbatim>\<open>OpenDeviceHandle\<close> (lines 61-65); \<open>ok\<close> is what the transport answers.\<close>

definition OpenDeviceHandle :: "bool \<Rightarrow> SMXDevice \<Rightarrow> SMXDevice" where
  "OpenDeviceHandle ok s = s\<lparr>m_pConnection := conn_Open ok (m_pConnection s)\<rparr>"

text \<open>\<^verbatim>\<open>CallUpdateCallback\<close> (lines 221-230).\<close>

definition CallUpdateCallback :: "SMXUpdateCallbackReason \<Rightarrow> SMXDevice \<Rightarrow> SMXDevice" where
  "CallUpdateCallback reason s =
     (if \<not> m_pUpdateCallback s then s
      else s\<lparr>callback_calls := callback_calls s @
             [(if conn_bP2 (m_pConnection s) then 1 else 0, reason)]\<rparr>)"

text \<open>\<^verbatim>\<open>CloseDevice\<close> (lines 67-76).\<close>

definition CloseDevice :: "SMXDevice \<Rightarrow> SMXDevice" where
  "CloseDevice s =
     CallUpdateCallback SMXUpdateCallback_Updated
       (s\<lparr>m_pConnection := conn_Close (m_pConnection s),
          m_bHaveConfig := False,
          m_bSendConfig := False\<rparr>)"

text \<open>\<^verbatim>\<open>SetUpdateCallback\<close> (lines 83-87); \<open>False\<close> is an empty function object.\<close>

definition SetUpdateCallback :: "bool \<Rightarrow> SMXDevice \<Rightarrow> SMXDevice" where
  "SetUpdateCallback pCallback s = s\<lparr>m_pUpdateCallback := pCallback\<rparr>"

text \<open>\<^verbatim>\<open>IsConnectedLocked\<close> (lines 98-102), which \<^verbatim>\<open>IsConnected\<close> returns under the lock.\<close>

definition IsConnectedLocked :: "SMXDevice \<Rightarrow> bool" where
  "IsConnectedLocked s = (conn_IsConnectedWithDeviceInfo (m_pConnection s) \<and> m_bHaveConfig s)"

text \<open>\<^verbatim>\<open>SendCommandLocked\<close> (lines 110-123), which \<^verbatim>\<open>SendCommand\<close> calls under the lock.\<close>

definition SendCommandLocked :: "packet \<Rightarrow> completion \<Rightarrow> SMXDevice \<Rightarrow> SMXDevice" where
  "SendCommandLocked cmd pComplete s =
     (if conn_IsConnected (m_pConnection s) then
        (let s1 = s\<lparr>m_pConnection := conn_SendCommand cmd pComplete (m_pConnection s)\<rparr>
         in if m_hEvent s1 then s1\<lparr>event_signals := event_signals s1 + 1\<rparr> else s1)
      else s)"

text \<open>\<^verbatim>\<open>GetConfig\<close> (lines 157-170): the configuration copied out and the value returned.\<close>

definition GetConfig :: "SMXDevice \<Rightarrow> SMXConfig \<times> bool" where
  "GetConfig s = (if m_bSendConfig s then wanted_config s else config s, m_bHaveConfig s)"

text \<open>\<^verbatim>\<open>SetConfig\<close> (lines 172-177).\<close>

definition SetConfig :: "SMXConfig \<Rightarrow> SMXDevice \<Rightarrow> SMXDevice" where
  "SetConfig newConfig s = s\<lparr>wanted_config := newConfig, m_bSendConfig := True\<rparr>"

text \<open>The commands: \<^verbatim>\<open>"f\n"\<close>, \<^verbatim>\<open>"g\n"\<close>, \<^verbatim>\<open>"C\n"\<close> and \<^verbatim>\<open>"R\n"\<close>.\<close>

definition cmd_f :: packet where "cmd_f = [0x66, 0x0A]"
definition cmd_g :: packet where "cmd_g = [0x67, 0x0A]"
definition cmd_C :: packet where "cmd_C = [0x43, 0x0A]"
definition cmd_R :: packet where "cmd_R = [0x52, 0x0A]"

text \<open>\<^verbatim>\<open>FactoryReset\<close> (lines 185-195) and \<^verbatim>\<open>ForceRecalibration\<close> (lines 197-201).\<close>

definition FactoryReset :: "SMXDevice \<Rightarrow> SMXDevice" where
  "FactoryReset s =
     SendCommandLocked cmd_g FactoryResetReadComplete (SendCommandLocked cmd_f NoCompletion s)"

definition ForceRecalibration :: "SMXDevice \<Rightarrow> SMXDevice" where
  "ForceRecalibration s = SendCommandLocked cmd_C NoCompletion s"

text \<open>\<^verbatim>\<open>SetSensorTestMode\<close> (lines 203-207) and \<^verbatim>\<open>GetTestData\<close> (lines 209-219).\<close>

definition SetSensorTestMode :: "SensorTestMode \<Rightarrow> SMXDevice \<Rightarrow> SMXDevice" where
  "SetSensorTestMode mode s = s\<lparr>m_SensorTestMode := mode\<rparr>"

definition GetTestData :: "SMXDevice \<Rightarrow> SMXSensorTestModeData option" where
  "GetTestData s = (if \<not> m_HaveSensorTestModeData s then None else Some (m_SensorTestData s))"

text \<open>
  \<^verbatim>\<open>SendConfig\<close> (lines 283-317). The command is \<^verbatim>\<open>"w"\<close>, the byte
  \<^verbatim>\<open>int8_t iSize = sizeof(SMXConfig)\<close> and the bytes of \<^verbatim>\<open>wanted_config\<close>.
\<close>

definition SendConfig :: "SMXDevice \<Rightarrow> SMXDevice" where
  "SendConfig s =
     (if \<not> conn_IsConnected (m_pConnection s) \<or> \<not> m_bSendConfig s \<or> m_bSendingConfig s then s
      else if \<not> m_bHaveConfig s then s
      else
        (let iSize = (of_nat (length (wanted_config s)) :: byte);
             sData = [0x77] @ [iSize] @ wanted_config s;
             s1 = s\<lparr>m_bSendingConfig := True\<rparr>;
             s2 = SendCommandLocked sData SendConfigComplete s1;
             s3 = s2\<lparr>m_bSendConfig := False\<rparr>;
             s4 = s3\<lparr>config := wanted_config s3\<rparr>
         in SendCommandLocked cmd_g NoCompletion s4))"

text \<open>What a completion does when the transport calls it.\<close>

definition run_completion :: "completion \<Rightarrow> SMXDevice \<Rightarrow> SMXDevice" where
  "run_completion pComplete s =
     (case pComplete of
        NoCompletion \<Rightarrow> s
      | SendConfigComplete \<Rightarrow> s\<lparr>m_bSendingConfig := False\<rparr>
      | FactoryResetReadComplete \<Rightarrow>
          CallUpdateCallback SMXUpdateCallback_FactoryResetCommandComplete s)"

text \<open>\<^verbatim>\<open>CheckActive\<close> (lines 346-362).\<close>

definition CheckActive :: "SMXDevice \<Rightarrow> SMXDevice" where
  "CheckActive s =
     (if \<not> conn_IsConnectedWithDeviceInfo (m_pConnection s) \<or> conn_active (m_pConnection s) then s
      else
        (let s1 = s\<lparr>m_pConnection := (m_pConnection s)\<lparr>conn_active := True\<rparr>\<rparr>;
             s2 = SendCommandLocked cmd_R NoCompletion s1
         in SendCommandLocked cmd_g NoCompletion s2))"

text \<open>
  \<^verbatim>\<open>UpdateTestMode\<close> (lines 365-389); \<open>now\<close> is what \<^verbatim>\<open>GetTickCount()\<close> returns.
  The difference \<^verbatim>\<open>now - m_SentSensorTestModeRequestAtTicks\<close> is unsigned 32-bit. The
  command is \<^verbatim>\<open>ssprintf("y%c\n", m_SensorTestMode)\<close>.
\<close>

definition UpdateTestMode :: "uint32_t \<Rightarrow> SMXDevice \<Rightarrow> SMXDevice" where
  "UpdateTestMode now s =
     (if m_SensorTestMode s = SensorTestMode_Off then s
      else if m_WaitingForSensorTestModeResponse s \<noteq> SensorTestMode_Off
              \<and> now - m_SentSensorTestModeRequestAtTicks s < 2000 then s
      else
        (let s1 = s\<lparr>m_WaitingForSensorTestModeResponse := m_SensorTestMode s\<rparr>;
             s2 = s1\<lparr>m_SentSensorTestModeRequestAtTicks := now\<rparr>
         in SendCommandLocked [0x79, of_int (m_SensorTestMode s2), 0x0A] NoCompletion s2))"

subsection \<open>\<^verbatim>\<open>HandleSensorTestDataResponse\<close> (lines 392-494)\<close>

text \<open>Two bytes as a 16-bit value, low byte first.\<close>

definition le16 :: "byte \<Rightarrow> byte \<Rightarrow> uint16_t" where
  "le16 lo hi = push_bit 8 (ucast hi) OR ucast lo"

text \<open>
  The loop \<^verbatim>\<open>for(int i = 3; i < iSize + 3; i += 2)\<close> of lines 412-419; \<open>n\<close> is
  \<^verbatim>\<open>iSize + 3\<close>.
\<close>

function read_words_loop :: "packet \<Rightarrow> nat \<Rightarrow> nat \<Rightarrow> uint16_t list \<Rightarrow> uint16_t list" where
  "read_words_loop sReadBuffer n i data =
     (if i < n then
        read_words_loop sReadBuffer n (i + 2)
          (data @ [le16 (sReadBuffer ! (i + 0)) (sReadBuffer ! (i + 1))])
      else data)"
  by pat_completeness auto
termination
  by (relation "measure (\<lambda>(sReadBuffer, n, i, data). n - i)") auto

declare read_words_loop.simps [simp del]

text \<open>
  \<^verbatim>\<open>uint8_t iSize = sReadBuffer[2] * 2\<close>: the product is cut to 8 bits, which for a
  signed and for an unsigned \<^verbatim>\<open>char\<close> is the product of the byte in 8-bit arithmetic.
\<close>

definition response_iSize :: "packet \<Rightarrow> byte" where
  "response_iSize sReadBuffer = sReadBuffer ! 2 * 2"

definition response_data :: "packet \<Rightarrow> uint16_t list" where
  "response_data sReadBuffer =
     read_words_loop sReadBuffer (unat (response_iSize sReadBuffer) + 3) 3 []"

text \<open>
  \<^verbatim>\<open>struct detail_data\<close> (lines 441-457), packed: one byte of one-bit fields, given
  out from the least significant bit on, four \<^verbatim>\<open>int16_t\<close> stored low byte first, and
  one byte holding the two four-bit fields. Its size is 10.
\<close>

record detail_data =
  sig1 :: byte
  sig2 :: byte
  sig3 :: byte
  bad_sensor_0 :: byte
  bad_sensor_1 :: byte
  bad_sensor_2 :: byte
  bad_sensor_3 :: byte
  dummy :: byte
  sensors :: "int16_t list"
  dip :: byte
  dummy2 :: byte

definition sizeof_detail_data :: nat where
  "sizeof_detail_data = 10"

definition overlay_detail_data :: "byte list \<Rightarrow> detail_data" where
  "overlay_detail_data p =
     \<lparr>sig1 = drop_bit 0 (p ! 0) AND 1,
      sig2 = drop_bit 1 (p ! 0) AND 1,
      sig3 = drop_bit 2 (p ! 0) AND 1,
      bad_sensor_0 = drop_bit 3 (p ! 0) AND 1,
      bad_sensor_1 = drop_bit 4 (p ! 0) AND 1,
      bad_sensor_2 = drop_bit 5 (p ! 0) AND 1,
      bad_sensor_3 = drop_bit 6 (p ! 0) AND 1,
      dummy = drop_bit 7 (p ! 0) AND 1,
      sensors = [le16 (p ! 1) (p ! 2), le16 (p ! 3) (p ! 4), le16 (p ! 5) (p ! 6), le16 (p ! 7) (p ! 8)],
      dip = drop_bit 0 (p ! 9) AND 15,
      dummy2 = drop_bit 4 (p ! 9) AND 15\<rparr>"

text \<open>The four \<^verbatim>\<open>memset\<close> calls of lines 461-464.\<close>

definition zeroed_output :: "SMXSensorTestModeData \<Rightarrow> SMXSensorTestModeData" where
  "zeroed_output output =
     output\<lparr>bHaveDataFromPanel := replicate 9 False,
            sensorLevel := replicate 9 (replicate 4 0),
            bBadSensorInput := replicate 9 (replicate 4 False),
            iDIPSwitchPerPanel := replicate 9 0\<rparr>"

definition set_bad_sensor :: "nat \<Rightarrow> nat \<Rightarrow> bool \<Rightarrow> SMXSensorTestModeData \<Rightarrow> SMXSensorTestModeData" where
  "set_bad_sensor iPanel iSensor v output =
     output\<lparr>bBadSensorInput :=
       (bBadSensorInput output)[iPanel := (bBadSensorInput output ! iPanel)[iSensor := v]]\<rparr>"

definition set_sensor_level :: "nat \<Rightarrow> nat \<Rightarrow> int16_t \<Rightarrow> SMXSensorTestModeData \<Rightarrow> SMXSensorTestModeData" where
  "set_sensor_level iPanel iSensor v output =
     output\<lparr>sensorLevel :=
       (sensorLevel output)[iPanel := (sensorLevel output ! iPanel)[iSensor := v]]\<rparr>"

text \<open>The body of the loop over the panels (lines 468-490).\<close>

definition decode_panel :: "uint16_t list \<Rightarrow> SMXSensorTestModeData \<Rightarrow> nat \<Rightarrow> SMXSensorTestModeData" where
  "decode_panel data output iPanel =
     (let pad_data = overlay_detail_data (ReadDataForPanel data iPanel sizeof_detail_data) in
      if sig1 pad_data \<noteq> 0 \<or> sig2 pad_data \<noteq> 1 \<or> sig3 pad_data \<noteq> 0 then
        output\<lparr>bHaveDataFromPanel := (bHaveDataFromPanel output)[iPanel := False]\<rparr>
      else
        (let o1 = output\<lparr>bHaveDataFromPanel := (bHaveDataFromPanel output)[iPanel := True]\<rparr>;
             o2 = set_bad_sensor iPanel 0 (bad_sensor_0 pad_data \<noteq> 0) o1;
             o3 = set_bad_sensor iPanel 1 (bad_sensor_1 pad_data \<noteq> 0) o2;
             o4 = set_bad_sensor iPanel 2 (bad_sensor_2 pad_data \<noteq> 0) o3;
             o5 = set_bad_sensor iPanel 3 (bad_sensor_3 pad_data \<noteq> 0) o4;
             o6 = o5\<lparr>iDIPSwitchPerPanel := (iDIPSwitchPerPanel o5)[iPanel := uint (dip pad_data)]\<rparr>
         in foldl (\<lambda>out iSensor. set_sensor_level iPanel iSensor (sensors pad_data ! iSensor) out)
              o6 [0..<4]))"

definition HandleSensorTestDataResponse :: "packet \<Rightarrow> SMXDevice \<Rightarrow> SMXDevice" where
  "HandleSensorTestDataResponse sReadBuffer s =
     (if length sReadBuffer < 3 then s
      else if length sReadBuffer < unat (response_iSize sReadBuffer) + 3 then s
      else
        (let iMode = sint (sReadBuffer ! 1);
             data = response_data sReadBuffer
         in if m_WaitingForSensorTestModeResponse s = SensorTestMode_Off then
              Log LogUnexpectedSensorData s
            else if iMode \<noteq> m_WaitingForSensorTestModeResponse s then
              Log (LogUnexpectedSensorMode iMode (m_WaitingForSensorTestModeResponse s)) s
            else
              (let s1 = s\<lparr>m_WaitingForSensorTestModeResponse := SensorTestMode_Off\<rparr> in
               if iMode \<noteq> m_SensorTestMode s1 then s1
               else
                 (let s2 = s1\<lparr>m_HaveSensorTestModeData := True\<rparr>;
                      output = foldl (decode_panel data) (zeroed_output (m_SensorTestData s2)) [0..<9]
                  in CallUpdateCallback SMXUpdateCallback_Updated (s2\<lparr>m_SensorTestData := output\<rparr>)))))"

subsection \<open>\<^verbatim>\<open>HandlePackets\<close> (lines 232-277)\<close>

text \<open>
  The body of the loop for the packet \<^verbatim>\<open>buf\<close> that \<^verbatim>\<open>ReadPacket\<close> gave. Both
  \<^verbatim>\<open>continue\<close> statements and both \<^verbatim>\<open>break\<close> statements of the \<^verbatim>\<open>switch\<close> lead to
  the next iteration of \<^verbatim>\<open>while(1)\<close>. \<^verbatim>\<open>memcpy\<close> overwrites the first
  \<^verbatim>\<open>min(iSize, sizeof(config))\<close> bytes of \<^verbatim>\<open>config\<close>.
\<close>

definition handle_packet :: "packet \<Rightarrow> SMXDevice \<Rightarrow> SMXDevice" where
  "handle_packet buf s =
     (if buf = [] then s
      else if buf ! 0 = 0x79 then HandleSensorTestDataResponse buf s
      else if buf ! 0 = 0x67 then
        (if length buf < 2 then Log LogInvalidConfigurationPacket s
         else
           (let iSize = buf ! 1 in
            if length buf < unat iSize + 2 then Log LogInvalidConfigurationPacket s
            else
              (let n = min (unat iSize) (length (config s));
                   s1 = s\<lparr>config := take n (drop 2 buf) @ drop n (config s)\<rparr>;
                   s2 = s1\<lparr>m_bHaveConfig := True\<rparr>
               in CallUpdateCallback SMXUpdateCallback_Updated s2)))
      else s)"

lemma handle_packet_connection [simp]:
  "m_pConnection (handle_packet buf s) = m_pConnection s"
  by (simp add: handle_packet_def HandleSensorTestDataResponse_def Log_def
      CallUpdateCallback_def Let_def)

text \<open>The loop \<^verbatim>\<open>while(1)\<close>, left when \<^verbatim>\<open>ReadPacket\<close> has no packet.\<close>

function HandlePackets :: "SMXDevice \<Rightarrow> SMXDevice" where
  "HandlePackets s =
     (case conn_ReadPacket (m_pConnection s) of
        None \<Rightarrow> s
      | Some (buf, c) \<Rightarrow> HandlePackets (handle_packet buf (s\<lparr>m_pConnection := c\<rparr>)))"
  by pat_completeness auto
termination
  by (relation "measure (\<lambda>s. length (conn_read_buffers (m_pConnection s)))")
    (auto simp: conn_ReadPacket_def split: list.splits)

declare HandlePackets.simps [simp del]

subsection \<open>\<^verbatim>\<open>Update\<close> (lines 319-344)\<close>

text \<open>
  Modelled from the spec: \<^verbatim>\<open>pumpIO()\<close>, the call \<^verbatim>\<open>m_pConnection->Update(sError)\<close>.
  What the transport does in one call is a list of these: a whole packet arrived, the
  oldest queued command was sent (its completion fires once), the identity was read, the
  input bitmask changed.
\<close>

datatype io_event =
  IoPacket packet
| IoSendComplete
| IoDeviceInfo bool
| IoInputState uint16_t

fun io_step :: "SMXDevice \<Rightarrow> io_event \<Rightarrow> SMXDevice" where
  "io_step s (IoPacket buf) =
     s\<lparr>m_pConnection := (m_pConnection s)\<lparr>conn_read_buffers :=
         conn_read_buffers (m_pConnection s) @ [buf]\<rparr>\<rparr>"
| "io_step s IoSendComplete =
     (case conn_pending_commands (m_pConnection s) of
        [] \<Rightarrow> s
      | (cmd, pComplete) # cmds \<Rightarrow>
          run_completion pComplete
            (s\<lparr>m_pConnection := (m_pConnection s)\<lparr>conn_pending_commands := cmds\<rparr>\<rparr>))"
| "io_step s (IoDeviceInfo bP2) =
     s\<lparr>m_pConnection := (m_pConnection s)\<lparr>conn_have_info := True, conn_bP2 := bP2\<rparr>\<rparr>"
| "io_step s (IoInputState st) =
     s\<lparr>m_pConnection := (m_pConnection s)\<lparr>conn_input_state := st\<rparr>\<rparr>"

definition conn_Update :: "io_event list \<Rightarrow> SMXDevice \<Rightarrow> SMXDevice" where
  "conn_Update io s = foldl io_step s io"

text \<open>
  \<^verbatim>\<open>Update\<close>; \<open>now\<close> is the tick count, \<open>io\<close> what the transport does in this call and
  \<open>failed\<close> whether it sets \<^verbatim>\<open>sError\<close>.
\<close>

definition Update :: "uint32_t \<Rightarrow> io_event list \<Rightarrow> bool \<Rightarrow> SMXDevice \<Rightarrow> SMXDevice" where
  "Update now io failed s =
     (if \<not> conn_IsConnected (m_pConnection s) then s
      else
        (let s1 = CheckActive s;
             s2 = SendConfig s1;
             s3 = UpdateTestMode now s2;
             iOldState = conn_input_state (m_pConnection s3);
             s4 = conn_Update io s3
         in if failed then s4
            else
              (let s5 = (if iOldState \<noteq> conn_input_state (m_pConnection s4)
                         then CallUpdateCallback SMXUpdateCallback_Updated s4 else s4)
               in HandlePackets s5)))"

subsection \<open>Runs of the device\<close>

text \<open>The calls that change the device, and a run of them from a state.\<close>

datatype call =
  CallOpenDeviceHandle bool
| CallCloseDevice
| CallSetUpdateCallback bool
| CallSendCommand packet
| CallSetConfig SMXConfig
| CallFactoryReset
| CallForceRecalibration
| CallSetSensorTestMode SensorTestMode
| CallUpdate uint32_t "io_event list" bool

fun exec_call :: "SMXDevice \<Rightarrow> call \<Rightarrow> SMXDevice" where
  "exec_call s (CallOpenDeviceHandle ok) = OpenDeviceHandle ok s"
| "exec_call s CallCloseDevice = CloseDevice s"
| "exec_call s (CallSetUpdateCallback pCallback) = SetUpdateCallback pCallback s"
| "exec_call s (CallSendCommand cmd) = SendCommandLocked cmd NoCompletion s"
| "exec_call s (CallSetConfig newConfig) = SetConfig newConfig s"
| "exec_call s CallFactoryReset = FactoryReset s"
| "exec_call s CallForceRecalibration = ForceRecalibration s"
| "exec_call s (CallSetSensorTestMode mode) = SetSensorTestMode mode s"
| "exec_call s (CallUpdate now io failed) = Update now io failed s"

definition run :: "call list \<Rightarrow> SMXDevice \<Rightarrow> SMXDevice" where
  "run calls s = foldl exec_call s calls"

text \<open>
  A configuration readback that \<^verbatim>\<open>HandlePackets\<close> accepts: tag \<^verbatim>\<open>'g'\<close>, a length
  byte, and at least as many bytes after it as the length byte declares.
\<close>

definition is_readback :: "packet \<Rightarrow> bool" where
  "is_readback buf =
     (buf \<noteq> [] \<and> buf ! 0 = 0x67 \<and> 2 \<le> length buf \<and> unat (buf ! 1) + 2 \<le> length buf)"

fun io_readback :: "io_event \<Rightarrow> bool" where
  "io_readback (IoPacket buf) = is_readback buf"
| "io_readback _ = False"

fun call_readback :: "call \<Rightarrow> bool" where
  "call_readback (CallUpdate now io failed) = list_ex io_readback io"
| "call_readback _ = False"

subsection \<open>Devices for the examples\<close>

text \<open>
  Modelled from the spec: a device before its first connection (SMXDevice.h, which holds
  the initial values of the members, is not part of the sources at hand): no
  configuration known, nothing to send, sensor test off, no test data. The
  configuration of the examples has four bytes.
\<close>

definition example_connection :: SMXDeviceConnection where
  "example_connection =
     \<lparr>conn_open = False, conn_have_info = False, conn_active = False, conn_bP2 = False,
      conn_read_buffers = [], conn_pending_commands = [], conn_input_state = 0\<rparr>"

definition example_device :: SMXDevice where
  "example_device =
     \<lparr>m_pConnection = example_connection,
      m_hEvent = True,
      m_pUpdateCallback = True,
      m_bHaveConfig = False,
      m_bSendConfig = False,
      m_bSendingConfig = False,
      config = [0, 0, 0, 0],
      wanted_config = [0, 0, 0, 0],
      m_SensorTestMode = SensorTestMode_Off,
      m_WaitingForSensorTestModeResponse = SensorTestMode_Off,
      m_SentSensorTestModeRequestAtTicks = 0,
      m_HaveSensorTestModeData = False,
      m_SensorTestData =
        \<lparr>bHaveDataFromPanel = replicate 9 False,
         sensorLevel = replicate 9 (replicate 4 0),
         bBadSensorInput = replicate 9 (replicate 4 False),
         iDIPSwitchPerPanel = replicate 9 0\<rparr>,
      callback_calls = [],
      log_lines = [],
      event_signals = 0\<rparr>"

text \<open>
  The example device once opened, with its identity read and the configuration
  \<^verbatim>\<open>01 02 03 04\<close> read back.
\<close>

definition connected_device :: SMXDevice where
  "connected_device =
     run [CallOpenDeviceHandle True,
          CallUpdate 0 [IoDeviceInfo False] False,
          CallUpdate 1 [IoSendComplete, IoSendComplete, IoPacket [0x67, 0x04, 0x01, 0x02, 0x03, 0x04]] False]
       example_device"

text \<open>
  The connected device with sensor test mode \<^verbatim>\<open>'1'\<close> selected: a request is sent at
  tick 5, its response (three words, the second with bit 0 to 8 set) arrives in the same
  call, and the next request is sent at tick 10.
\<close>

definition testing_device :: SMXDevice where
  "testing_device =
     run [CallSetSensorTestMode 49,
          CallUpdate 5 [IoSendComplete,
            IoPacket [0x79, 0x31, 0x03, 0x00, 0x00, 0xFF, 0x01, 0x00, 0x00]] False,
          CallUpdate 10 [] False]
       connected_device"

text \<open>
  A packet with tag \<^verbatim>\<open>'g'\<close> that declares more bytes than it has (or has no length
  byte), and the connected device with such a packet queued before a well-formed
  readback of one byte.
\<close>

definition malformed_readback :: "packet \<Rightarrow> bool" where
  "malformed_readback buf =
     (buf \<noteq> [] \<and> buf ! 0 = 0x67 \<and> (length buf < 2 \<or> length buf < unat (buf ! 1) + 2))"

definition malformed_queue_device :: SMXDevice where
  "malformed_queue_device =
     conn_Update [IoPacket [0x67, 0x05, 0x01], IoPacket [0x67, 0x01, 0xAA]] connected_device"

text \<open>
  The configuration writes in flight: the queued commands whose completion is the lambda
  of \<^verbatim>\<open>SendConfig\<close>. The packets that a list of transport events delivers.
\<close>

definition writes_in_flight :: "SMXDevice \<Rightarrow> nat" where
  "writes_in_flight s =
     length (filter (\<lambda>c. snd c = SendConfigComplete) (conn_pending_commands (m_pConnection s)))"

fun io_packets :: "io_event list \<Rightarrow> packet list" where
  "io_packets [] = []"
| "io_packets (IoPacket buf # io) = buf # io_packets io"
| "io_packets (_ # io) = io_packets io"

text \<open>The write command of \<^verbatim>\<open>SendConfig\<close> for a configuration.\<close>

definition write_command :: "SMXConfig \<Rightarrow> packet" where
  "write_command c = [0x77] @ [of_nat (length c)] @ c"

subsection \<open>The decoded record of one panel\<close>

text \<open>
  The structure \<^verbatim>\<open>pad_data\<close> of a panel as line 470 fills it, and the negation of
  the header check of line 474.
\<close>

definition panel_data :: "uint16_t list \<Rightarrow> nat \<Rightarrow> detail_data" where
  "panel_data data iPanel = overlay_detail_data (ReadDataForPanel data iPanel sizeof_detail_data)"

definition header_valid :: "detail_data \<Rightarrow> bool" where
  "header_valid pad_data = (\<not> (sig1 pad_data \<noteq> 0 \<or> sig2 pad_data \<noteq> 1 \<or> sig3 pad_data \<noteq> 0))"

text \<open>The claim's header: the first three bits of the panel's stream are 0, 1, 0.\<close>

definition spec_header_ok :: "uint16_t list \<Rightarrow> nat \<Rightarrow> bool" where
  "spec_header_ok data p =
     (\<not> spec_panel_bit data p 0 \<and> spec_panel_bit data p 1 \<and> \<not> spec_panel_bit data p 2)"

text \<open>
  The four entries of one panel in the output, what the loop body stores for a panel, and
  the sizes of the four arrays.
\<close>

definition panel_view :: "SMXSensorTestModeData \<Rightarrow> nat \<Rightarrow> bool \<times> int16_t list \<times> bool list \<times> int" where
  "panel_view out i =
     (bHaveDataFromPanel out ! i, sensorLevel out ! i, bBadSensorInput out ! i, iDIPSwitchPerPanel out ! i)"

definition decoded_panel :: "uint16_t list \<Rightarrow> nat \<Rightarrow> bool \<times> int16_t list \<times> bool list \<times> int" where
  "decoded_panel data i =
     (if header_valid (panel_data data i)
      then (True, sensors (panel_data data i),
            [bad_sensor_0 (panel_data data i) \<noteq> 0, bad_sensor_1 (panel_data data i) \<noteq> 0,
             bad_sensor_2 (panel_data data i) \<noteq> 0, bad_sensor_3 (panel_data data i) \<noteq> 0],
            uint (dip (panel_data data i)))
      else (False, replicate 4 0, replicate 4 False, 0))"

definition output_sized :: "SMXSensorTestModeData \<Rightarrow> bool" where
  "output_sized out =
     (length (bHaveDataFromPanel out) = 9 \<and> length (sensorLevel out) = 9
      \<and> length (bBadSensorInput out) = 9 \<and> length (iDIPSwitchPerPanel out) = 9)"

section \<open>The example devices, evaluated\<close>

lemma connected_device_value:
  "connected_device =
     \<lparr>m_pConnection =
        \<lparr>conn_open = True, conn_have_info = True, conn_active = True, conn_bP2 = False,
         conn_read_buffers = [], conn_pending_commands = [], conn_input_state = 0\<rparr>,
      m_hEvent = True, m_pUpdateCallback = True, m_bHaveConfig = True,
      m_bSendConfig = False, m_bSendingConfig = False,
      config = [1, 2, 3, 4], wanted_config = [0, 0, 0, 0],
      m_SensorTestMode = 0, m_WaitingForSensorTestModeResponse = 0,
      m_SentSensorTestModeRequestAtTicks = 0, m_HaveSensorTestModeData = False,
      m_SensorTestData =
        \<lparr>bHaveDataFromPanel = replicate 9 False,
         sensorLevel = replicate 9 (replicate 4 0),
         bBadSensorInput = replicate 9 (replicate 4 False),
         iDIPSwitchPerPanel = replicate 9 0\<rparr>,
      callback_calls = [(0, SMXUpdateCallback_Updated)], log_lines = [],
      event_signals = 2\<rparr>"
  by code_simp

lemma testing_device_value:
  "testing_device =
     \<lparr>m_pConnection =
        \<lparr>conn_open = True, conn_have_info = True, conn_active = True, conn_bP2 = False,
         conn_read_buffers = [],
         conn_pending_commands = [([0x79, 0x31, 0x0A], NoCompletion)],
         conn_input_state = 0\<rparr>,
      m_hEvent = True, m_pUpdateCallback = True, m_bHaveConfig = True,
      m_bSendConfig = False, m_bSendingConfig = False,
      config = [1, 2, 3, 4], wanted_config = [0, 0, 0, 0],
      m_SensorTestMode = 49, m_WaitingForSensorTestModeResponse = 49,
      m_SentSensorTestModeRequestAtTicks = 10, m_HaveSensorTestModeData = True,
      m_SensorTestData =
        \<lparr>bHaveDataFromPanel = replicate 9 True,
         sensorLevel = replicate 9 (replicate 4 0),
         bBadSensorInput = replicate 9 (replicate 4 False),
         iDIPSwitchPerPanel = replicate 9 0\<rparr>,
      callback_calls = [(0, SMXUpdateCallback_Updated), (0, SMXUpdateCallback_Updated)],
      log_lines = [], event_signals = 4\<rparr>"
  by code_simp

section \<open>Bit unpacking\<close>

lemma mask_test_bit:
  "((ucast (w :: uint16_t) AND push_bit p (1 :: 32 word)) \<noteq> 0) = bit w p"
proof -
  have "((ucast w AND push_bit p (1 :: 32 word)) \<noteq> 0) = bit (ucast w :: 32 word) p"
    by (simp add: bit_iff_and_push_bit_not_eq_0)
  also have "\<dots> = bit w p"
    by (auto simp: bit_ucast_iff dest: bit_imp_le_length)
  finally show ?thesis .
qed

lemma mask_test_bit_pow:
  "((ucast (w :: uint16_t) AND (2 :: 32 word) ^ p) = 0) = (\<not> bit w p)"
  using mask_test_bit [of w p] by (auto simp: push_bit_eq_mult)

lemma read_byte_loop_cursor:
  "j \<le> 8 \<Longrightarrow> m \<le> length data \<Longrightarrow>
   fst (read_byte_loop data p j m r) = min (m + (8 - j)) (length data)"
proof (induction data p j m r rule: read_byte_loop.induct)
  case (1 data iPanel j m_iBit result)
  show ?case
  proof (cases "j < 8")
    case True
    then show ?thesis
      using 1 by (subst read_byte_loop.simps) (auto simp: Let_def min_def)
  next
    case False
    then show ?thesis
      using 1 by (subst read_byte_loop.simps) simp
  qed
qed

lemma read_byte_loop_bit:
  "j \<le> 8 \<Longrightarrow> m \<le> length data \<Longrightarrow>
   bit (snd (read_byte_loop data p j m r)) k =
     (bit r k \<or> (j \<le> k \<and> k < 8 \<and> spec_panel_bit data p (m + (k - j))))"
proof (induction data p j m r arbitrary: k rule: read_byte_loop.induct)
  case (1 data iPanel j m_iBit result)
  show ?case
  proof (cases "j < 8")
    case False
    then show ?thesis
      using 1(2) by (subst read_byte_loop.simps) auto
  next
    case True
    note IH = 1(1) [OF True refl refl refl]
    show ?thesis
    proof (cases "m_iBit < length data")
      case inb: True
      have "bit (snd (read_byte_loop data iPanel j m_iBit result)) k =
            bit (snd (read_byte_loop data iPanel (j + 1) (m_iBit + 1)
              (result OR push_bit j (of_bool (bit (data ! m_iBit) iPanel))))) k"
        using True inb by (subst read_byte_loop.simps) (simp add: mask_test_bit_pow)
      also have "\<dots> = (bit (result OR push_bit j (of_bool (bit (data ! m_iBit) iPanel))) k \<or>
          (j + 1 \<le> k \<and> k < 8 \<and> spec_panel_bit data iPanel (m_iBit + 1 + (k - (j + 1)))))"
        using IH [of k] True inb by (simp add: mask_test_bit_pow)
      also have "\<dots> = (bit result k \<or> (j \<le> k \<and> k < 8 \<and> spec_panel_bit data iPanel (m_iBit + (k - j))))"
      proof (cases "k = j")
        case True
        then show ?thesis
          using \<open>j < 8\<close> inb by (auto simp: bit_simps spec_panel_bit_def)
      next
        case False
        then have "j \<le> k \<Longrightarrow> m_iBit + 1 + (k - (j + 1)) = m_iBit + (k - j)"
          by simp
        with False show ?thesis
          by (auto simp: bit_simps)
      qed
      finally show ?thesis .
    next
      case oob: False
      with 1(3) have eq: "m_iBit = length data" by simp
      have "bit (snd (read_byte_loop data iPanel j m_iBit result)) k =
            bit (snd (read_byte_loop data iPanel (j + 1) m_iBit (result OR push_bit j (of_bool False)))) k"
        using True oob by (subst read_byte_loop.simps) simp
      also have "\<dots> = (bit (result OR push_bit j (of_bool False)) k \<or>
          (j + 1 \<le> k \<and> k < 8 \<and> spec_panel_bit data iPanel (m_iBit + (k - (j + 1)))))"
        using IH [of k] True oob 1(3) by simp
      also have "\<dots> = (bit result k \<or> (j \<le> k \<and> k < 8 \<and> spec_panel_bit data iPanel (m_iBit + (k - j))))"
        using eq by (simp add: spec_panel_bit_def)
      finally show ?thesis .
    qed
  qed
qed

lemma read_panel_loop_eq:
  "m = min (8 * i) (length data) \<Longrightarrow>
   read_panel_loop data p N i m out =
     out @ map (\<lambda>i'. snd (read_byte_loop data p 0 (min (8 * i') (length data)) 0)) [i..<N]"
proof (induction data p N i m out rule: read_panel_loop.induct)
  case (1 data iPanel iOutSize i m_iBit out)
  show ?case
  proof (cases "i < iOutSize")
    case False
    then show ?thesis
      by (subst read_panel_loop.simps) simp
  next
    case True
    obtain m' r where rb: "read_byte_loop data iPanel 0 m_iBit 0 = (m', r)"
      by (cases "read_byte_loop data iPanel 0 m_iBit 0")
    have "m' = fst (read_byte_loop data iPanel 0 m_iBit 0)"
      using rb by simp
    also have "\<dots> = min (m_iBit + 8) (length data)"
      using read_byte_loop_cursor [of 0 m_iBit data iPanel 0] 1(2) by simp
    also have "\<dots> = min (8 * (i + 1)) (length data)"
      using 1(2) by (simp add: min_def)
    finally have m': "m' = min (8 * (i + 1)) (length data)" .
    have r: "r = snd (read_byte_loop data iPanel 0 (min (8 * i) (length data)) 0)"
      using rb 1(2) by simp
    have "read_panel_loop data iPanel iOutSize i m_iBit out =
          read_panel_loop data iPanel iOutSize (i + 1) m' (out @ [r])"
      using True rb by (subst read_panel_loop.simps) simp
    also have "\<dots> = (out @ [r]) @
        map (\<lambda>i'. snd (read_byte_loop data iPanel 0 (min (8 * i') (length data)) 0)) [i + 1..<iOutSize]"
      using 1(1) [OF True rb [symmetric] m'] .
    also have "\<dots> = out @
        map (\<lambda>i'. snd (read_byte_loop data iPanel 0 (min (8 * i') (length data)) 0)) [i..<iOutSize]"
      using True r by (simp add: upt_conv_Cons)
    finally show ?thesis .
  qed
qed

lemma ReadDataForPanel_length: "length (ReadDataForPanel data p N) = N"
  by (simp add: ReadDataForPanel_def read_panel_loop_eq)

lemma ReadDataForPanel_bit:
  assumes "i < N"
  shows "bit (ReadDataForPanel data p N ! i) j = (j < 8 \<and> spec_panel_bit data p (8 * i + j))"
proof -
  have "ReadDataForPanel data p N ! i =
        snd (read_byte_loop data p 0 (min (8 * i) (length data)) 0)"
    using assms by (simp add: ReadDataForPanel_def read_panel_loop_eq)
  then have "bit (ReadDataForPanel data p N ! i) j =
        (j < 8 \<and> spec_panel_bit data p (min (8 * i) (length data) + j))"
    using read_byte_loop_bit [of 0 "min (8 * i) (length data)" data p 0 j] by simp
  also have "\<dots> = (j < 8 \<and> spec_panel_bit data p (8 * i + j))"
    by (auto simp: spec_panel_bit_def min_def)
  finally show ?thesis .
qed

text \<open>
  C3. For every word sequence, every panel index \<open>p\<close> from 0 to 8 and every output size
  \<open>N\<close>, \<^verbatim>\<open>ReadDataForPanel\<close> writes \<open>N\<close> bytes, and bit \<open>j\<close> (\<open>j\<close> from 0 to 7) of byte
  \<open>i\<close> is bit \<open>p\<close> of word \<open>8 * i + j\<close> when there is such a word and 0 when the words are
  exhausted. Equivalently, bit \<open>p\<close> of word \<open>k\<close> is bit \<open>k\<close> of the output stream of panel
  \<open>p\<close>, the same word serving every panel.
\<close>

theorem C3_ReadDataForPanel_unpacks:
  assumes "p \<le> 8"
  shows "length (ReadDataForPanel data p N) = N
    \<and> (\<forall>i<N. \<forall>j<8. bit (ReadDataForPanel data p N ! i) j =
           (if 8 * i + j < length data then bit (data ! (8 * i + j)) p else False))
    \<and> (\<forall>k. k < length data \<and> k < 8 * N \<longrightarrow>
           bit (data ! k) p = bit (ReadDataForPanel data p N ! (k div 8)) (k mod 8))"
proof (intro conjI)
  show "length (ReadDataForPanel data p N) = N"
    by (rule ReadDataForPanel_length)
  show "\<forall>i<N. \<forall>j<8. bit (ReadDataForPanel data p N ! i) j =
           (if 8 * i + j < length data then bit (data ! (8 * i + j)) p else False)"
    by (simp add: ReadDataForPanel_bit spec_panel_bit_def)
  show "\<forall>k. k < length data \<and> k < 8 * N \<longrightarrow>
           bit (data ! k) p = bit (ReadDataForPanel data p N ! (k div 8)) (k mod 8)"
  proof (intro allI impI)
    fix k assume k: "k < length data \<and> k < 8 * N"
    then have "k div 8 < N" by auto
    then show "bit (data ! k) p = bit (ReadDataForPanel data p N ! (k div 8)) (k mod 8)"
      using k by (simp add: ReadDataForPanel_bit spec_panel_bit_def)
  qed
qed

theorem C3_ReadDataForPanel_unpacks_witness:
  "ReadDataForPanel [0x0004, 0x0000, 0x0104, 0x0004 :: uint16_t] 2 1 = [0x0D]
   \<and> length (ReadDataForPanel [0x0004, 0x0000, 0x0104, 0x0004 :: uint16_t] 2 1) = 1
   \<and> bit (ReadDataForPanel [0x0004, 0x0000, 0x0104, 0x0004 :: uint16_t] 2 1 ! 0) 3
   \<and> \<not> bit (ReadDataForPanel [0x0004, 0x0000, 0x0104, 0x0004 :: uint16_t] 2 1 ! 0) 4"
proof -
  have p: "(2 :: nat) \<le> 8" by simp
  note inst = C3_ReadDataForPanel_unpacks [OF p, of "[0x0004, 0x0000, 0x0104, 0x0004]" 1]
  have ev: "ReadDataForPanel [0x0004, 0x0000, 0x0104, 0x0004 :: uint16_t] 2 1 = [0x0D]"
    by code_simp
  have len: "length (ReadDataForPanel [0x0004, 0x0000, 0x0104, 0x0004 :: uint16_t] 2 1) = 1"
    using inst by blast
  have b3: "bit (ReadDataForPanel [0x0004, 0x0000, 0x0104, 0x0004 :: uint16_t] 2 1 ! 0) 3"
    using inst by simp
  have b4: "\<not> bit (ReadDataForPanel [0x0004, 0x0000, 0x0104, 0x0004 :: uint16_t] 2 1 ! 0) 4"
    using inst by simp
  show ?thesis
    using ev len b3 b4 by blast
qed

section \<open>Requests for sensor test data\<close>

text \<open>
  C6. While a sensor test mode is selected and the device is connected, the step
  \<^verbatim>\<open>UpdateTestMode\<close> sends nothing and changes nothing when a request is outstanding
  and fewer than 2000 ticks have passed since it was sent (the difference of the two
  32-bit tick counts); when no request is outstanding, or 2000 ticks or more have passed,
  it queues exactly one request \<^verbatim>\<open>y\<close>, mode, newline, and records the mode as awaited
  and the tick count as the time of sending.
\<close>

theorem C6_UpdateTestMode_request:
  assumes "m_SensorTestMode s \<noteq> SensorTestMode_Off"
    and "conn_IsConnected (m_pConnection s)"
  shows "(m_WaitingForSensorTestModeResponse s \<noteq> SensorTestMode_Off
            \<and> unat (now - m_SentSensorTestModeRequestAtTicks s) < 2000
          \<longrightarrow> UpdateTestMode now s = s)
    \<and> (m_WaitingForSensorTestModeResponse s = SensorTestMode_Off
            \<or> 2000 \<le> unat (now - m_SentSensorTestModeRequestAtTicks s)
          \<longrightarrow> UpdateTestMode now s =
              s\<lparr>m_pConnection := (m_pConnection s)\<lparr>conn_pending_commands :=
                    conn_pending_commands (m_pConnection s) @
                      [([0x79, of_int (m_SensorTestMode s), 0x0A], NoCompletion)]\<rparr>,
                m_WaitingForSensorTestModeResponse := m_SensorTestMode s,
                m_SentSensorTestModeRequestAtTicks := now,
                event_signals := (if m_hEvent s then event_signals s + 1 else event_signals s)\<rparr>)"
proof -
  have lt: "(now - m_SentSensorTestModeRequestAtTicks s < 2000) =
            (unat (now - m_SentSensorTestModeRequestAtTicks s) < 2000)"
    by (simp add: word_less_nat_alt)
  show ?thesis
    using assms
    by (auto simp: UpdateTestMode_def SendCommandLocked_def conn_SendCommand_def Let_def lt)
qed

text \<open>
  A request for mode \<^verbatim>\<open>'1'\<close> sent at tick 0 and not answered: nothing is sent at tick
  1999, a second request is sent at tick 2001.
\<close>

theorem C6_UpdateTestMode_request_witness:
  "UpdateTestMode 1999 (UpdateTestMode 0 (SetSensorTestMode 49 connected_device))
     = UpdateTestMode 0 (SetSensorTestMode 49 connected_device)
   \<and> conn_pending_commands (m_pConnection (UpdateTestMode 0 (SetSensorTestMode 49 connected_device)))
       = [([0x79, 0x31, 0x0A], NoCompletion)]
   \<and> conn_pending_commands (m_pConnection
        (UpdateTestMode 2001 (UpdateTestMode 0 (SetSensorTestMode 49 connected_device))))
       = [([0x79, 0x31, 0x0A], NoCompletion), ([0x79, 0x31, 0x0A], NoCompletion)]"
proof -
  define s0 where "s0 = UpdateTestMode 0 (SetSensorTestMode 49 connected_device)"
  have facts: "m_SensorTestMode s0 = 49" "conn_IsConnected (m_pConnection s0)"
    "m_WaitingForSensorTestModeResponse s0 = 49" "m_SentSensorTestModeRequestAtTicks s0 = 0"
    "conn_pending_commands (m_pConnection s0) = [([0x79, 0x31, 0x0A], NoCompletion)]"
    unfolding s0_def
    by (simp_all add: connected_device_value UpdateTestMode_def SetSensorTestMode_def
        SensorTestMode_Off_def SendCommandLocked_def conn_SendCommand_def conn_IsConnected_def)
  have a: "m_SensorTestMode s0 \<noteq> SensorTestMode_Off"
    by (simp add: facts SensorTestMode_Off_def)
  have "UpdateTestMode 1999 s0 = s0"
    using C6_UpdateTestMode_request [OF a facts(2), of 1999]
    by (simp add: facts SensorTestMode_Off_def)
  moreover have "conn_pending_commands (m_pConnection (UpdateTestMode 2001 s0))
       = [([0x79, 0x31, 0x0A], NoCompletion), ([0x79, 0x31, 0x0A], NoCompletion)]"
    using C6_UpdateTestMode_request [OF a facts(2), of 2001]
    by (simp add: facts SensorTestMode_Off_def)
  ultimately show ?thesis
    using facts(5) unfolding s0_def by simp
qed

section \<open>Closing the device\<close>

text \<open>
  C9, as the claim states it, fails: in the state reached after a sensor test response
  was decoded and a further request was sent at tick 10, \<^verbatim>\<open>CloseDevice\<close> leaves the
  request outstanding, leaves its time of sending, and leaves the test data available.
\<close>

theorem C9_CloseDevice_counterexample:
  "m_WaitingForSensorTestModeResponse (CloseDevice testing_device) \<noteq> SensorTestMode_Off
   \<and> m_SentSensorTestModeRequestAtTicks (CloseDevice testing_device) = 10
   \<and> m_HaveSensorTestModeData (CloseDevice testing_device)
   \<and> GetTestData (CloseDevice testing_device) \<noteq> None"
  by (simp add: testing_device_value CloseDevice_def CallUpdateCallback_def GetTestData_def
      SensorTestMode_Off_def conn_Close_def)

text \<open>
  C9, amended. \<^verbatim>\<open>CloseDevice\<close> closes the transport, clears the have-configuration
  flag and the pending flag, calls the registered callback, and changes nothing else. So
  none of the sensor test members changes: the selected mode, the awaited mode, the time
  the request was sent, the have-data flag and the stored test data are what they were,
  and \<^verbatim>\<open>GetTestData\<close> answers as before. The in-flight flag, both configurations, the
  event handle, the callback and the log are unchanged as well.
\<close>

theorem C9_CloseDevice_keeps_sensor_test_state:
  "CloseDevice s =
     s\<lparr>m_pConnection := conn_Close (m_pConnection s),
       m_bHaveConfig := False,
       m_bSendConfig := False,
       callback_calls :=
         (if m_pUpdateCallback s
          then callback_calls s @
            [(if conn_bP2 (m_pConnection s) then 1 else 0, SMXUpdateCallback_Updated)]
          else callback_calls s)\<rparr>
   \<and> m_SensorTestMode (CloseDevice s) = m_SensorTestMode s
   \<and> m_WaitingForSensorTestModeResponse (CloseDevice s) = m_WaitingForSensorTestModeResponse s
   \<and> m_SentSensorTestModeRequestAtTicks (CloseDevice s) = m_SentSensorTestModeRequestAtTicks s
   \<and> m_HaveSensorTestModeData (CloseDevice s) = m_HaveSensorTestModeData s
   \<and> m_SensorTestData (CloseDevice s) = m_SensorTestData s
   \<and> GetTestData (CloseDevice s) = GetTestData s
   \<and> m_bSendingConfig (CloseDevice s) = m_bSendingConfig s
   \<and> config (CloseDevice s) = config s
   \<and> wanted_config (CloseDevice s) = wanted_config s
   \<and> m_hEvent (CloseDevice s) = m_hEvent s
   \<and> m_pUpdateCallback (CloseDevice s) = m_pUpdateCallback s
   \<and> log_lines (CloseDevice s) = log_lines s
   \<and> event_signals (CloseDevice s) = event_signals s"
  by (simp add: CloseDevice_def CallUpdateCallback_def GetTestData_def conn_Close_def)

section \<open>The words of a sensor test response\<close>

lemma read_words_loop_eq:
  "read_words_loop buf n i data =
     data @ map (\<lambda>k. le16 (buf ! (i + 2 * k)) (buf ! (i + 2 * k + 1))) [0..<(n + 1 - i) div 2]"
proof (induction buf n i data rule: read_words_loop.induct)
  case (1 sReadBuffer n i data)
  let ?f = "\<lambda>i k. le16 (sReadBuffer ! (i + 2 * k)) (sReadBuffer ! (i + 2 * k + 1))"
  show ?case
  proof (cases "i < n")
    case False
    then show ?thesis
      by (subst read_words_loop.simps) simp
  next
    case True
    then have cnt: "(n + 1 - i) div 2 = Suc ((n + 1 - (i + 2)) div 2)"
      by arith
    have "read_words_loop sReadBuffer n i data =
          read_words_loop sReadBuffer n (i + 2) (data @ [?f i 0])"
      using True by (subst read_words_loop.simps) simp
    also have "\<dots> = (data @ [?f i 0]) @ map (?f (i + 2)) [0..<(n + 1 - (i + 2)) div 2]"
      using 1 [OF True] by simp
    also have "\<dots> = data @ map (?f i) [0..<Suc ((n + 1 - (i + 2)) div 2)]"
      by (simp add: map_upt_Suc del: upt_Suc)
    also have "\<dots> = data @ map (?f i) [0..<(n + 1 - i) div 2]"
      by (simp only: cnt)
    finally show ?thesis .
  qed
qed

lemma dbl_mod_256: "(m * 2) mod 256 = 2 * (m mod 128)" for m :: nat
  using mult_mod_right [of 2 m 128] by (simp add: mult.commute)

lemma unat_response_iSize: "unat (response_iSize buf) = (unat (buf ! 2) * 2) mod 256"
  by (simp add: response_iSize_def unat_word_ariths)

lemma half_dbl: "((m * 2) mod 256 + 3 + 1 - 3) div 2 = m mod 128" for m :: nat
  by (simp add: dbl_mod_256)

lemma response_data_eq:
  "response_data buf =
     map (\<lambda>k. le16 (buf ! (3 + 2 * k)) (buf ! (3 + 2 * k + 1))) [0..<unat (buf ! 2) mod 128]"
  by (simp only: response_data_def read_words_loop_eq unat_response_iSize half_dbl append_Nil)

lemma unat_le16: "unat (le16 lo hi) = unat lo + 256 * unat hi"
proof -
  have eq: "le16 lo hi = push_bit 8 (ucast hi) + ucast lo"
    using word_cat_eq [of hi lo, where 'c = 16] word_cat_eq_push_bit_or [of hi lo, where 'c = 16]
    by (simp add: le16_def)
  have lo: "unat lo < 256" and hi: "unat hi < 256"
    using unsigned_less [of lo] unsigned_less [of hi] by simp_all
  have u1: "unat (ucast lo :: 16 word) = unat lo"
    using lo by (simp add: unsigned_ucast_eq take_bit_nat_eq_self)
  have u2: "unat (push_bit 8 (ucast hi :: 16 word)) = 256 * unat hi"
    using hi by (simp add: push_bit_eq_mult unat_word_ariths unsigned_ucast_eq take_bit_nat_eq_self)
  show ?thesis
    using lo hi by (simp add: eq unat_word_ariths u1 u2)
qed

lemma le16_bit: "bit (le16 lo hi) n = (if n < 8 then bit lo n else n < 16 \<and> bit hi (n - 8))"
  by (auto simp: le16_def bit_simps dest: bit_imp_le_length)

text \<open>
  C10. Let \<open>wc\<close> be the word count byte of a sensor test response. The payload size the
  handler computes is \<open>wc\<close> times 2 cut to 8 bits. While the packet has fewer than 3
  bytes, or fewer than that payload size plus 3, the handler returns with no state change.
  For a whole packet the handler extracts half the payload size in words, each read low
  byte first from inside the packet: \<open>wc\<close> words when \<open>wc\<close> is below 128, and
  \<open>wc - 128\<close> words, not \<open>wc\<close>, when it is 128 or more. What the handler then does is
  given in full: a log line when no request is outstanding or another mode is awaited,
  the awaited mode cleared when the mode is no longer the selected one, and otherwise the
  test data decoded from exactly those words.
\<close>

theorem C10_response_word_count:
  assumes "wc = unat (sReadBuffer ! 2)"
    and "words = map (\<lambda>k. le16 (sReadBuffer ! (3 + 2 * k)) (sReadBuffer ! (3 + 2 * k + 1)))
                   [0..<((wc * 2) mod 256) div 2]"
  shows "(length sReadBuffer < 3 \<or> length sReadBuffer < (wc * 2) mod 256 + 3
      \<longrightarrow> HandleSensorTestDataResponse sReadBuffer s = s)
   \<and> (3 \<le> length sReadBuffer \<and> (wc * 2) mod 256 + 3 \<le> length sReadBuffer
      \<longrightarrow> unat (response_iSize sReadBuffer) = (wc * 2) mod 256
          \<and> response_data sReadBuffer = words
          \<and> length words = ((wc * 2) mod 256) div 2
          \<and> (128 \<le> wc \<longrightarrow> length words = wc - 128 \<and> length words \<noteq> wc)
          \<and> (wc < 128 \<longrightarrow> length words = wc)
          \<and> (\<forall>k<length words.
                3 + 2 * k + 1 < length sReadBuffer
                \<and> unat (words ! k) =
                    unat (sReadBuffer ! (3 + 2 * k)) + 256 * unat (sReadBuffer ! (3 + 2 * k + 1)))
          \<and> HandleSensorTestDataResponse sReadBuffer s =
              (if m_WaitingForSensorTestModeResponse s = SensorTestMode_Off
               then s\<lparr>log_lines := log_lines s @ [LogUnexpectedSensorData]\<rparr>
               else if sint (sReadBuffer ! 1) \<noteq> m_WaitingForSensorTestModeResponse s
               then s\<lparr>log_lines := log_lines s @
                      [LogUnexpectedSensorMode (sint (sReadBuffer ! 1))
                         (m_WaitingForSensorTestModeResponse s)]\<rparr>
               else if sint (sReadBuffer ! 1) \<noteq> m_SensorTestMode s
               then s\<lparr>m_WaitingForSensorTestModeResponse := SensorTestMode_Off\<rparr>
               else CallUpdateCallback SMXUpdateCallback_Updated
                      (s\<lparr>m_WaitingForSensorTestModeResponse := SensorTestMode_Off,
                         m_HaveSensorTestModeData := True,
                         m_SensorTestData :=
                           foldl (decode_panel words) (zeroed_output (m_SensorTestData s)) [0..<9]\<rparr>)))"
proof -
  have wc256: "wc < 256"
    unfolding assms(1) using unsigned_less [of "sReadBuffer ! 2"] by simp
  have half: "((wc * 2) mod 256) div 2 = wc mod 128"
    by (simp add: dbl_mod_256)
  have size: "unat (response_iSize sReadBuffer) = (wc * 2) mod 256"
    by (simp add: unat_response_iSize assms(1))
  have data: "response_data sReadBuffer = words"
    unfolding assms(2) half by (simp add: response_data_eq assms(1))
  have len: "length words = wc mod 128"
    unfolding assms(2) half by simp
  have short: "length sReadBuffer < 3 \<or> length sReadBuffer < (wc * 2) mod 256 + 3
      \<longrightarrow> HandleSensorTestDataResponse sReadBuffer s = s"
    by (auto simp: HandleSensorTestDataResponse_def size)
  have big: "128 \<le> wc \<longrightarrow> length words = wc - 128 \<and> length words \<noteq> wc"
    using wc256 by (simp add: len mod_if)
  have small: "wc < 128 \<longrightarrow> length words = wc"
    by (simp add: len)
  have nth: "3 + 2 * k + 1 < length sReadBuffer
      \<and> unat (words ! k) =
          unat (sReadBuffer ! (3 + 2 * k)) + 256 * unat (sReadBuffer ! (3 + 2 * k + 1))"
    if whole: "(wc * 2) mod 256 + 3 \<le> length sReadBuffer" and k: "k < length words" for k
  proof -
    have "2 * k + 2 \<le> 2 * (wc mod 128)"
      using k len by simp
    then have "3 + 2 * k + 1 < (wc * 2) mod 256 + 3"
      by (simp add: dbl_mod_256)
    then have inr: "3 + 2 * k + 1 < length sReadBuffer"
      using whole by simp
    have "words ! k = le16 (sReadBuffer ! (3 + 2 * k)) (sReadBuffer ! (3 + 2 * k + 1))"
      using k unfolding assms(2) by simp
    then show ?thesis
      using inr by (simp add: unat_le16)
  qed
  have handler: "HandleSensorTestDataResponse sReadBuffer s =
              (if m_WaitingForSensorTestModeResponse s = SensorTestMode_Off
               then s\<lparr>log_lines := log_lines s @ [LogUnexpectedSensorData]\<rparr>
               else if sint (sReadBuffer ! 1) \<noteq> m_WaitingForSensorTestModeResponse s
               then s\<lparr>log_lines := log_lines s @
                      [LogUnexpectedSensorMode (sint (sReadBuffer ! 1))
                         (m_WaitingForSensorTestModeResponse s)]\<rparr>
               else if sint (sReadBuffer ! 1) \<noteq> m_SensorTestMode s
               then s\<lparr>m_WaitingForSensorTestModeResponse := SensorTestMode_Off\<rparr>
               else CallUpdateCallback SMXUpdateCallback_Updated
                      (s\<lparr>m_WaitingForSensorTestModeResponse := SensorTestMode_Off,
                         m_HaveSensorTestModeData := True,
                         m_SensorTestData :=
                           foldl (decode_panel words) (zeroed_output (m_SensorTestData s)) [0..<9]\<rparr>))"
    if "3 \<le> length sReadBuffer" "(wc * 2) mod 256 + 3 \<le> length sReadBuffer"
    using that unfolding data [symmetric]
    by (simp add: HandleSensorTestDataResponse_def size Let_def Log_def)
  have len2: "length words = ((wc * 2) mod 256) div 2"
    by (simp add: len half)
  show ?thesis
    using short size data len2 big small nth handler by blast
qed


text \<open>
  A packet that declares 130 words and carries two is whole: the handler extracts the two
  words, resolves the request and decodes them (panel 0 alone has the header 0, 1, 0). A
  packet one byte short leaves the device as it was.
\<close>

theorem C10_response_word_count_witness:
  "response_data [0x79, 0x31, 0x82, 0x00, 0x00, 0x01, 0x00] = [0x0000, 0x0001]
   \<and> m_WaitingForSensorTestModeResponse testing_device \<noteq> SensorTestMode_Off
   \<and> m_WaitingForSensorTestModeResponse
        (HandleSensorTestDataResponse [0x79, 0x31, 0x82, 0x00, 0x00, 0x01, 0x00] testing_device)
       = SensorTestMode_Off
   \<and> bHaveDataFromPanel (m_SensorTestData
        (HandleSensorTestDataResponse [0x79, 0x31, 0x82, 0x00, 0x00, 0x01, 0x00] testing_device))
       = [True, False, False, False, False, False, False, False, False]
   \<and> HandleSensorTestDataResponse [0x79, 0x31, 0x02, 0x34, 0x12, 0xFF] testing_device = testing_device"
proof -
  let ?buf = "[0x79, 0x31, 0x82, 0x00, 0x00, 0x01, 0x00] :: packet"
  let ?short = "[0x79, 0x31, 0x02, 0x34, 0x12, 0xFF] :: packet"
  have whole: "3 \<le> length ?buf \<and> (unat (?buf ! 2) * 2) mod 256 + 3 \<le> length ?buf"
    by simp
  note inst = C10_response_word_count [OF refl refl, of ?buf testing_device, THEN conjunct2, THEN mp, OF whole]
  have facts: "m_WaitingForSensorTestModeResponse testing_device = 49"
    "m_SensorTestMode testing_device = 49"
    by (simp_all add: testing_device_value)
  have two: "[0..<2] = [0, Suc 0]"
    by (simp add: upt_rec)
  have a: "response_data ?buf = [0x0000, 0x0001]"
    using inst [THEN conjunct2, THEN conjunct1] by (simp add: le16_def two)
  have b: "m_WaitingForSensorTestModeResponse testing_device \<noteq> SensorTestMode_Off"
    by (simp add: facts SensorTestMode_Off_def)
  have c: "m_WaitingForSensorTestModeResponse (HandleSensorTestDataResponse ?buf testing_device)
       = SensorTestMode_Off"
    using inst [THEN conjunct2, THEN conjunct2, THEN conjunct2, THEN conjunct2, THEN conjunct2,
      THEN conjunct2]
    by (simp add: facts SensorTestMode_Off_def CallUpdateCallback_def)
  have d: "bHaveDataFromPanel (m_SensorTestData (HandleSensorTestDataResponse ?buf testing_device))
       = [True, False, False, False, False, False, False, False, False]"
    unfolding testing_device_value by code_simp
  have "length ?short < 3 \<or> length ?short < (unat (?short ! 2) * 2) mod 256 + 3"
    by simp
  then have e: "HandleSensorTestDataResponse ?short testing_device = testing_device"
    using C10_response_word_count [OF refl refl, of ?short testing_device, THEN conjunct1] by blast
  show ?thesis
    using a b c d e by blast
qed

section \<open>A response for another mode\<close>

text \<open>
  C5, as the claim states it, fails. The device awaits a response for mode \<^verbatim>\<open>'1'\<close>,
  which is also the selected mode. After a response that echoes mode \<^verbatim>\<open>'0'\<close> the
  awaited mode is not \<^verbatim>\<open>SensorTestMode_Off\<close>; and a response echoing \<^verbatim>\<open>'1'\<close> that
  follows, with no request sent in between, is accepted: it resolves the request and
  overwrites the test data.
\<close>

theorem C5_mismatch_counterexample:
  "m_SensorTestMode testing_device = 49
   \<and> m_WaitingForSensorTestModeResponse testing_device = 49
   \<and> m_WaitingForSensorTestModeResponse
        (HandleSensorTestDataResponse [0x79, 0x30, 0x00] testing_device) \<noteq> SensorTestMode_Off
   \<and> m_WaitingForSensorTestModeResponse
        (HandleSensorTestDataResponse [0x79, 0x31, 0x00]
          (HandleSensorTestDataResponse [0x79, 0x30, 0x00] testing_device)) = SensorTestMode_Off
   \<and> bHaveDataFromPanel (m_SensorTestData
        (HandleSensorTestDataResponse [0x79, 0x31, 0x00]
          (HandleSensorTestDataResponse [0x79, 0x30, 0x00] testing_device))) = replicate 9 False"
  unfolding testing_device_value by code_simp

text \<open>
  C5, amended. When a request is outstanding and a whole response arrives whose echoed
  mode differs from the awaited mode, the response is discarded with one log line and
  nothing else changes: the awaited mode stays as it was. A later response that echoes
  the awaited mode, this being the selected mode, is therefore accepted with no new
  request: it clears the awaited mode and its words are decoded into the test data.
\<close>

theorem C5_mismatch_keeps_request:
  assumes "3 \<le> length sReadBuffer"
    and "unat (response_iSize sReadBuffer) + 3 \<le> length sReadBuffer"
    and "m_WaitingForSensorTestModeResponse s \<noteq> SensorTestMode_Off"
    and "sint (sReadBuffer ! 1) \<noteq> m_WaitingForSensorTestModeResponse s"
  shows "HandleSensorTestDataResponse sReadBuffer s =
           s\<lparr>log_lines := log_lines s @
               [LogUnexpectedSensorMode (sint (sReadBuffer ! 1)) (m_WaitingForSensorTestModeResponse s)]\<rparr>
    \<and> m_WaitingForSensorTestModeResponse (HandleSensorTestDataResponse sReadBuffer s)
        = m_WaitingForSensorTestModeResponse s
    \<and> (\<forall>later. 3 \<le> length later \<and> unat (response_iSize later) + 3 \<le> length later
          \<and> sint (later ! 1) = m_WaitingForSensorTestModeResponse s
          \<and> sint (later ! 1) = m_SensorTestMode s
        \<longrightarrow> m_WaitingForSensorTestModeResponse
              (HandleSensorTestDataResponse later (HandleSensorTestDataResponse sReadBuffer s))
              = SensorTestMode_Off
          \<and> m_HaveSensorTestModeData
              (HandleSensorTestDataResponse later (HandleSensorTestDataResponse sReadBuffer s))
          \<and> m_SensorTestData
              (HandleSensorTestDataResponse later (HandleSensorTestDataResponse sReadBuffer s))
              = foldl (decode_panel (response_data later)) (zeroed_output (m_SensorTestData s)) [0..<9])"
proof -
  let ?s' = "s\<lparr>log_lines := log_lines s @
               [LogUnexpectedSensorMode (sint (sReadBuffer ! 1)) (m_WaitingForSensorTestModeResponse s)]\<rparr>"
  have first: "HandleSensorTestDataResponse sReadBuffer s = ?s'"
    using assms by (simp add: HandleSensorTestDataResponse_def Log_def Let_def)
  have later: "m_WaitingForSensorTestModeResponse (HandleSensorTestDataResponse later ?s')
              = SensorTestMode_Off
          \<and> m_HaveSensorTestModeData (HandleSensorTestDataResponse later ?s')
          \<and> m_SensorTestData (HandleSensorTestDataResponse later ?s')
              = foldl (decode_panel (response_data later)) (zeroed_output (m_SensorTestData s)) [0..<9]"
    if "3 \<le> length later" "unat (response_iSize later) + 3 \<le> length later"
      "sint (later ! 1) = m_WaitingForSensorTestModeResponse s"
      "sint (later ! 1) = m_SensorTestMode s" for later
    using that assms(3)
    by (simp add: HandleSensorTestDataResponse_def Let_def CallUpdateCallback_def)
  have kept: "m_WaitingForSensorTestModeResponse ?s' = m_WaitingForSensorTestModeResponse s"
    by simp
  show ?thesis
    unfolding first using kept later by blast
qed

text \<open>Mode \<^verbatim>\<open>'1'\<close> awaited, mode \<^verbatim>\<open>'0'\<close> echoed: one log line, mode \<^verbatim>\<open>'1'\<close> still awaited.\<close>

theorem C5_mismatch_keeps_request_witness:
  "HandleSensorTestDataResponse [0x79, 0x30, 0x00] testing_device =
     testing_device\<lparr>log_lines := [LogUnexpectedSensorMode 48 49]\<rparr>
   \<and> m_WaitingForSensorTestModeResponse
        (HandleSensorTestDataResponse [0x79, 0x30, 0x00] testing_device) = 49"
proof -
  have facts: "m_WaitingForSensorTestModeResponse testing_device = 49"
    "log_lines testing_device = []"
    by (simp_all add: testing_device_value)
  have pre: "3 \<le> length [0x79, 0x30, 0x00 :: byte]"
    "unat (response_iSize [0x79, 0x30, 0x00]) + 3 \<le> length [0x79, 0x30, 0x00 :: byte]"
    "m_WaitingForSensorTestModeResponse testing_device \<noteq> SensorTestMode_Off"
    "sint ([0x79, 0x30, 0x00 :: byte] ! 1) \<noteq> m_WaitingForSensorTestModeResponse testing_device"
    by (simp_all add: facts response_iSize_def SensorTestMode_Off_def)
  note inst = C5_mismatch_keeps_request [OF pre]
  have a: "HandleSensorTestDataResponse [0x79, 0x30, 0x00] testing_device =
     testing_device\<lparr>log_lines := [LogUnexpectedSensorMode 48 49]\<rparr>"
    using inst [THEN conjunct1] by (simp add: facts)
  have b: "m_WaitingForSensorTestModeResponse
        (HandleSensorTestDataResponse [0x79, 0x30, 0x00] testing_device) = 49"
    using inst [THEN conjunct2, THEN conjunct1] by (simp add: facts)
  show ?thesis using a b by blast
qed


section \<open>Dispatch of received packets\<close>

lemma HandlePackets_Nil:
  "conn_read_buffers (m_pConnection s) = [] \<Longrightarrow> HandlePackets s = s"
  by (subst HandlePackets.simps) (simp add: conn_ReadPacket_def)

lemma HandlePackets_Cons:
  "conn_read_buffers (m_pConnection s) = buf # rest \<Longrightarrow>
   HandlePackets s =
     HandlePackets (handle_packet buf (s\<lparr>m_pConnection := (m_pConnection s)\<lparr>conn_read_buffers := rest\<rparr>\<rparr>))"
  by (subst HandlePackets.simps) (simp add: conn_ReadPacket_def)

lemma HandlePackets_drains:
  "conn_read_buffers (m_pConnection (HandlePackets s)) = []"
proof (induction "conn_read_buffers (m_pConnection s)" arbitrary: s)
  case Nil
  then show ?case by (simp add: HandlePackets_Nil)
next
  case (Cons buf rest)
  from Cons(2) have eq: "conn_read_buffers (m_pConnection s) = buf # rest" by simp
  show ?case
    unfolding HandlePackets_Cons [OF eq] by (rule Cons(1)) simp
qed

lemma handle_packet_malformed:
  "malformed_readback buf \<Longrightarrow> handle_packet buf s = Log LogInvalidConfigurationPacket s"
  by (auto simp: malformed_readback_def handle_packet_def Let_def)

lemma malformed_queue_device_value:
  "malformed_queue_device =
     connected_device\<lparr>m_pConnection := (m_pConnection connected_device)
       \<lparr>conn_read_buffers := [[0x67, 0x05, 0x01], [0x67, 0x01, 0xAA]]\<rparr>\<rparr>"
  by (simp add: malformed_queue_device_def conn_Update_def connected_device_value)

text \<open>
  C7, as the claim states it, fails. The queue holds a packet \<^verbatim>\<open>'g'\<close> that declares
  five bytes and has one, then a well-formed readback of the byte \<^verbatim>\<open>AA\<close>.
  \<^verbatim>\<open>HandlePackets\<close> logs the error once, and does not stop there with the queue as it
  was: the queue is empty afterwards and the second packet has been copied into the
  configuration.
\<close>

theorem C7_malformed_counterexample:
  "conn_read_buffers (m_pConnection malformed_queue_device) = [[0x67, 0x05, 0x01], [0x67, 0x01, 0xAA]]
   \<and> malformed_readback [0x67, 0x05, 0x01]
   \<and> config malformed_queue_device = [0x01, 0x02, 0x03, 0x04]
   \<and> log_lines (HandlePackets malformed_queue_device) = [LogInvalidConfigurationPacket]
   \<and> conn_read_buffers (m_pConnection (HandlePackets malformed_queue_device)) = []
   \<and> config (HandlePackets malformed_queue_device) = [0xAA, 0x02, 0x03, 0x04]
   \<and> HandlePackets malformed_queue_device \<noteq> Log LogInvalidConfigurationPacket malformed_queue_device"
proof -
  have v: "HandlePackets malformed_queue_device =
     connected_device\<lparr>config := [0xAA, 0x02, 0x03, 0x04],
       log_lines := [LogInvalidConfigurationPacket],
       callback_calls := [(0, SMXUpdateCallback_Updated), (0, SMXUpdateCallback_Updated)]\<rparr>"
    unfolding malformed_queue_device_value connected_device_value by code_simp
  show ?thesis
    unfolding v
    by (simp add: malformed_queue_device_value connected_device_value malformed_readback_def Log_def)
qed

text \<open>
  C7, amended. When the packet at the head of the queue has tag \<^verbatim>\<open>'g'\<close> and declares
  more bytes than it has, \<^verbatim>\<open>HandlePackets\<close> logs a communication error, drops this
  packet only, and goes on with the rest of the queue in the same call; the queue is
  empty when it returns. When nothing else is queued, the log line and the removal of the
  packet are the only changes.
\<close>

theorem C7_malformed_packet_dropped:
  assumes "conn_read_buffers (m_pConnection s) = buf # rest"
    and "malformed_readback buf"
  shows "HandlePackets s =
           HandlePackets (Log LogInvalidConfigurationPacket
             (s\<lparr>m_pConnection := (m_pConnection s)\<lparr>conn_read_buffers := rest\<rparr>\<rparr>))
    \<and> conn_read_buffers (m_pConnection (HandlePackets s)) = []
    \<and> (rest = [] \<longrightarrow>
         HandlePackets s =
           s\<lparr>m_pConnection := (m_pConnection s)\<lparr>conn_read_buffers := []\<rparr>,
             log_lines := log_lines s @ [LogInvalidConfigurationPacket]\<rparr>)"
proof -
  let ?s1 = "s\<lparr>m_pConnection := (m_pConnection s)\<lparr>conn_read_buffers := rest\<rparr>\<rparr>"
  have a: "HandlePackets s = HandlePackets (Log LogInvalidConfigurationPacket ?s1)"
    using HandlePackets_Cons [OF assms(1)] handle_packet_malformed [OF assms(2)] by simp
  have b: "conn_read_buffers (m_pConnection (HandlePackets s)) = []"
    by (rule HandlePackets_drains)
  have c: "HandlePackets s =
           s\<lparr>m_pConnection := (m_pConnection s)\<lparr>conn_read_buffers := []\<rparr>,
             log_lines := log_lines s @ [LogInvalidConfigurationPacket]\<rparr>" if "rest = []"
    unfolding a using that by (simp add: HandlePackets_Nil Log_def)
  show ?thesis
    using a b c by blast
qed

text \<open>The same queue: the call is the call on the rest of the queue after the log line.\<close>

theorem C7_malformed_packet_dropped_witness:
  "HandlePackets malformed_queue_device =
     HandlePackets (Log LogInvalidConfigurationPacket
       (malformed_queue_device\<lparr>m_pConnection := (m_pConnection malformed_queue_device)
          \<lparr>conn_read_buffers := [[0x67, 0x01, 0xAA]]\<rparr>\<rparr>))
   \<and> conn_read_buffers (m_pConnection (HandlePackets malformed_queue_device)) = []"
proof -
  have q: "conn_read_buffers (m_pConnection malformed_queue_device) =
      [0x67, 0x05, 0x01] # [[0x67, 0x01, 0xAA]]"
    by (simp add: malformed_queue_device_value)
  have m: "malformed_readback [0x67, 0x05, 0x01]"
    by (simp add: malformed_readback_def)
  show ?thesis
    using C7_malformed_packet_dropped [OF q m] by blast
qed


section \<open>What each step does to the configuration flags and the queues\<close>

lemma CallUpdateCallback_fields [simp]:
  "m_pConnection (CallUpdateCallback r s) = m_pConnection s"
  "m_bHaveConfig (CallUpdateCallback r s) = m_bHaveConfig s"
  "m_bSendConfig (CallUpdateCallback r s) = m_bSendConfig s"
  "m_bSendingConfig (CallUpdateCallback r s) = m_bSendingConfig s"
  "config (CallUpdateCallback r s) = config s"
  "wanted_config (CallUpdateCallback r s) = wanted_config s"
  by (simp_all add: CallUpdateCallback_def)

lemma SendCommandLocked_fields [simp]:
  "m_bHaveConfig (SendCommandLocked cmd c s) = m_bHaveConfig s"
  "m_bSendConfig (SendCommandLocked cmd c s) = m_bSendConfig s"
  "m_bSendingConfig (SendCommandLocked cmd c s) = m_bSendingConfig s"
  "config (SendCommandLocked cmd c s) = config s"
  "wanted_config (SendCommandLocked cmd c s) = wanted_config s"
  "conn_read_buffers (m_pConnection (SendCommandLocked cmd c s)) = conn_read_buffers (m_pConnection s)"
  "conn_open (m_pConnection (SendCommandLocked cmd c s)) = conn_open (m_pConnection s)"
  "conn_pending_commands (m_pConnection (SendCommandLocked cmd c s)) =
     (if conn_open (m_pConnection s) then conn_pending_commands (m_pConnection s) @ [(cmd, c)]
      else conn_pending_commands (m_pConnection s))"
  by (simp_all add: SendCommandLocked_def conn_SendCommand_def conn_IsConnected_def Let_def)

lemma writes_in_flight_SendCommandLocked [simp]:
  "writes_in_flight (SendCommandLocked cmd c s) =
     (if conn_open (m_pConnection s) \<and> c = SendConfigComplete
      then writes_in_flight s + 1 else writes_in_flight s)"
  by (simp add: writes_in_flight_def)

lemma CheckActive_fields [simp]:
  "m_bHaveConfig (CheckActive s) = m_bHaveConfig s"
  "m_bSendConfig (CheckActive s) = m_bSendConfig s"
  "m_bSendingConfig (CheckActive s) = m_bSendingConfig s"
  "conn_read_buffers (m_pConnection (CheckActive s)) = conn_read_buffers (m_pConnection s)"
  "conn_open (m_pConnection (CheckActive s)) = conn_open (m_pConnection s)"
  "writes_in_flight (CheckActive s) = writes_in_flight s"
  by (simp_all add: CheckActive_def Let_def writes_in_flight_def)

lemma UpdateTestMode_fields [simp]:
  "m_bHaveConfig (UpdateTestMode now s) = m_bHaveConfig s"
  "m_bSendConfig (UpdateTestMode now s) = m_bSendConfig s"
  "m_bSendingConfig (UpdateTestMode now s) = m_bSendingConfig s"
  "conn_read_buffers (m_pConnection (UpdateTestMode now s)) = conn_read_buffers (m_pConnection s)"
  "conn_open (m_pConnection (UpdateTestMode now s)) = conn_open (m_pConnection s)"
  "writes_in_flight (UpdateTestMode now s) = writes_in_flight s"
  by (simp_all add: UpdateTestMode_def Let_def writes_in_flight_def)

lemma SendConfig_idle:
  "\<not> conn_IsConnected (m_pConnection s) \<or> \<not> m_bHaveConfig s \<or> \<not> m_bSendConfig s \<or> m_bSendingConfig s
   \<Longrightarrow> SendConfig s = s"
  by (auto simp: SendConfig_def)

lemma SendConfig_writes:
  assumes "conn_IsConnected (m_pConnection s)" "m_bHaveConfig s" "m_bSendConfig s" "\<not> m_bSendingConfig s"
  shows "SendConfig s =
     s\<lparr>m_pConnection := (m_pConnection s)\<lparr>conn_pending_commands :=
          conn_pending_commands (m_pConnection s) @
            [(write_command (wanted_config s), SendConfigComplete), (cmd_g, NoCompletion)]\<rparr>,
       m_bSendConfig := False,
       m_bSendingConfig := True,
       config := wanted_config s,
       event_signals := (if m_hEvent s then event_signals s + 2 else event_signals s)\<rparr>"
  using assms
  by (simp add: SendConfig_def SendCommandLocked_def conn_SendCommand_def conn_IsConnected_def
      write_command_def Let_def)

lemma SendConfig_fields [simp]:
  "m_bHaveConfig (SendConfig s) = m_bHaveConfig s"
  "conn_read_buffers (m_pConnection (SendConfig s)) = conn_read_buffers (m_pConnection s)"
  "conn_open (m_pConnection (SendConfig s)) = conn_open (m_pConnection s)"
  by (simp_all add: SendConfig_def Let_def)

lemma SendConfig_in_flight:
  assumes "writes_in_flight s \<le> (if m_bSendingConfig s then 1 else 0)"
  shows "writes_in_flight (SendConfig s) \<le> (if m_bSendingConfig (SendConfig s) then 1 else 0)"
proof (cases "conn_IsConnected (m_pConnection s) \<and> m_bHaveConfig s \<and> m_bSendConfig s
    \<and> \<not> m_bSendingConfig s")
  case True
  then have "writes_in_flight s = 0"
    using assms by simp
  then show ?thesis
    using True by (simp add: SendConfig_writes writes_in_flight_def)
next
  case False
  then have "SendConfig s = s"
    by (intro SendConfig_idle) blast
  then show ?thesis
    using assms by simp
qed

lemma run_completion_fields [simp]:
  "m_bHaveConfig (run_completion c s) = m_bHaveConfig s"
  "m_pConnection (run_completion c s) = m_pConnection s"
  "m_bSendingConfig (run_completion c s) = (m_bSendingConfig s \<and> c \<noteq> SendConfigComplete)"
  by (cases c; simp add: run_completion_def)+

lemma io_step_fields [simp]:
  "m_bHaveConfig (io_step s e) = m_bHaveConfig s"
  "conn_read_buffers (m_pConnection (io_step s e)) = conn_read_buffers (m_pConnection s) @ io_packets [e]"
  by (cases e; simp split: list.splits prod.splits)+

lemma io_step_in_flight:
  "writes_in_flight s \<le> (if m_bSendingConfig s then 1 else 0) \<Longrightarrow>
   writes_in_flight (io_step s e) \<le> (if m_bSendingConfig (io_step s e) then 1 else 0)"
  by (cases e) (auto simp: writes_in_flight_def split: list.splits if_splits)

lemma io_packets_append: "io_packets (xs @ ys) = io_packets xs @ io_packets ys"
  by (induction xs rule: io_packets.induct) simp_all

lemma conn_Update_fields [simp]:
  "m_bHaveConfig (conn_Update io s) = m_bHaveConfig s"
  "conn_read_buffers (m_pConnection (conn_Update io s)) =
     conn_read_buffers (m_pConnection s) @ io_packets io"
proof -
  have "m_bHaveConfig (foldl io_step s io) = m_bHaveConfig s
    \<and> conn_read_buffers (m_pConnection (foldl io_step s io)) =
        conn_read_buffers (m_pConnection s) @ io_packets io"
  proof (induction io arbitrary: s)
    case Nil
    show ?case by simp
  next
    case (Cons e io)
    have "io_packets (e # io) = io_packets [e] @ io_packets io"
      using io_packets_append [of "[e]" io] by simp
    then show ?case
      using Cons [of "io_step s e"] by simp
  qed
  then show "m_bHaveConfig (conn_Update io s) = m_bHaveConfig s"
    "conn_read_buffers (m_pConnection (conn_Update io s)) =
       conn_read_buffers (m_pConnection s) @ io_packets io"
    by (simp_all add: conn_Update_def)
qed

lemma conn_Update_in_flight:
  "writes_in_flight s \<le> (if m_bSendingConfig s then 1 else 0) \<Longrightarrow>
   writes_in_flight (conn_Update io s) \<le> (if m_bSendingConfig (conn_Update io s) then 1 else 0)"
  unfolding conn_Update_def
proof (induction io arbitrary: s)
  case Nil
  then show ?case by simp
next
  case (Cons e io)
  show ?case
    using Cons(1) [OF io_step_in_flight [OF Cons(2)]] by simp
qed

lemma HandleSensorTestDataResponse_fields [simp]:
  "m_bHaveConfig (HandleSensorTestDataResponse buf s) = m_bHaveConfig s"
  "m_bSendingConfig (HandleSensorTestDataResponse buf s) = m_bSendingConfig s"
  by (simp_all add: HandleSensorTestDataResponse_def Let_def Log_def)

lemma handle_packet_have_config:
  "m_bHaveConfig (handle_packet buf s) = (m_bHaveConfig s \<or> is_readback buf)"
  by (auto simp: handle_packet_def is_readback_def Let_def Log_def)

lemma handle_packet_sending [simp]:
  "m_bSendingConfig (handle_packet buf s) = m_bSendingConfig s"
  by (simp add: handle_packet_def Let_def Log_def)

lemma HandlePackets_have_config:
  "m_bHaveConfig (HandlePackets s) =
     (m_bHaveConfig s \<or> list_ex is_readback (conn_read_buffers (m_pConnection s)))"
proof (induction "conn_read_buffers (m_pConnection s)" arbitrary: s)
  case Nil
  then show ?case by (simp add: HandlePackets_Nil)
next
  case (Cons buf rest)
  from Cons(2) have eq: "conn_read_buffers (m_pConnection s) = buf # rest" by simp
  let ?s1 = "handle_packet buf (s\<lparr>m_pConnection := (m_pConnection s)\<lparr>conn_read_buffers := rest\<rparr>\<rparr>)"
  have "m_bHaveConfig (HandlePackets ?s1) =
        (m_bHaveConfig ?s1 \<or> list_ex is_readback (conn_read_buffers (m_pConnection ?s1)))"
    by (rule Cons(1)) simp
  then show ?case
    unfolding HandlePackets_Cons [OF eq] using eq by (auto simp: handle_packet_have_config)
qed

lemma HandlePackets_sending_pending:
  "m_bSendingConfig (HandlePackets s) = m_bSendingConfig s
   \<and> conn_pending_commands (m_pConnection (HandlePackets s)) = conn_pending_commands (m_pConnection s)
   \<and> conn_open (m_pConnection (HandlePackets s)) = conn_open (m_pConnection s)"
proof (induction "conn_read_buffers (m_pConnection s)" arbitrary: s)
  case Nil
  then show ?case by (simp add: HandlePackets_Nil)
next
  case (Cons buf rest)
  from Cons(2) have eq: "conn_read_buffers (m_pConnection s) = buf # rest" by simp
  let ?s1 = "handle_packet buf (s\<lparr>m_pConnection := (m_pConnection s)\<lparr>conn_read_buffers := rest\<rparr>\<rparr>)"
  have "m_bSendingConfig (HandlePackets ?s1) = m_bSendingConfig ?s1
   \<and> conn_pending_commands (m_pConnection (HandlePackets ?s1)) = conn_pending_commands (m_pConnection ?s1)
   \<and> conn_open (m_pConnection (HandlePackets ?s1)) = conn_open (m_pConnection ?s1)"
    by (rule Cons(1)) simp
  then show ?case
    unfolding HandlePackets_Cons [OF eq] by simp
qed

lemma HandlePackets_in_flight [simp]:
  "writes_in_flight (HandlePackets s) = writes_in_flight s"
  by (simp add: writes_in_flight_def HandlePackets_sending_pending)

lemma io_packets_readback:
  "list_ex is_readback (io_packets io) = list_ex io_readback io"
  by (induction io rule: io_packets.induct) simp_all

lemma Update_have_config:
  "m_bHaveConfig (Update now io failed s) =
     (m_bHaveConfig s \<or>
      (conn_IsConnected (m_pConnection s) \<and> \<not> failed \<and>
       (list_ex is_readback (conn_read_buffers (m_pConnection s)) \<or> list_ex io_readback io)))"
  by (simp add: Update_def Let_def HandlePackets_have_config io_packets_readback)

lemma Update_read_buffers:
  "list_ex is_readback (conn_read_buffers (m_pConnection (Update now io failed s))) \<Longrightarrow>
   list_ex is_readback (conn_read_buffers (m_pConnection s)) \<or> list_ex io_readback io"
  by (simp add: Update_def Let_def HandlePackets_drains io_packets_readback
      split: if_splits)

lemma CallUpdateCallback_in_flight [simp]:
  "writes_in_flight (CallUpdateCallback r s) = writes_in_flight s"
  by (simp add: writes_in_flight_def)

lemma Update_in_flight:
  assumes "writes_in_flight s \<le> (if m_bSendingConfig s then 1 else 0)"
  shows "writes_in_flight (Update now io failed s)
           \<le> (if m_bSendingConfig (Update now io failed s) then 1 else 0)"
proof -
  let ?s3 = "UpdateTestMode now (SendConfig (CheckActive s))"
  let ?s4 = "conn_Update io ?s3"
  have "writes_in_flight (CheckActive s) \<le> (if m_bSendingConfig (CheckActive s) then 1 else 0)"
    using assms by simp
  then have 3: "writes_in_flight ?s3 \<le> (if m_bSendingConfig ?s3 then 1 else 0)"
    using SendConfig_in_flight [of "CheckActive s"] by simp
  have 4: "writes_in_flight ?s4 \<le> (if m_bSendingConfig ?s4 then 1 else 0)"
    by (rule conn_Update_in_flight [OF 3])
  have cases: "Update now io failed s = s \<or> Update now io failed s = ?s4
      \<or> Update now io failed s = HandlePackets ?s4
      \<or> Update now io failed s = HandlePackets (CallUpdateCallback SMXUpdateCallback_Updated ?s4)"
    by (simp add: Update_def Let_def)
  then show ?thesis
  proof (elim disjE)
    assume "Update now io failed s = s"
    then show ?thesis using assms by simp
  next
    assume "Update now io failed s = ?s4"
    then show ?thesis using 4 by simp
  next
    assume "Update now io failed s = HandlePackets ?s4"
    then show ?thesis using 4 by (simp add: HandlePackets_sending_pending)
  next
    assume "Update now io failed s = HandlePackets (CallUpdateCallback SMXUpdateCallback_Updated ?s4)"
    then show ?thesis using 4 by (simp add: HandlePackets_sending_pending)
  qed
qed


section \<open>Runs: the configuration flag and the writes in flight\<close>

lemma exec_call_no_readback:
  assumes "\<not> m_bHaveConfig s"
    and "\<not> list_ex is_readback (conn_read_buffers (m_pConnection s))"
    and "\<not> call_readback c"
  shows "\<not> m_bHaveConfig (exec_call s c)
    \<and> \<not> list_ex is_readback (conn_read_buffers (m_pConnection (exec_call s c)))"
proof (cases c)
  case (CallUpdate now io failed)
  then show ?thesis
    using assms Update_read_buffers [of now io failed s]
    by (auto simp: Update_have_config)
next
  case CallCloseDevice
  then show ?thesis
    by (simp add: CloseDevice_def conn_Close_def)
qed (use assms in \<open>simp_all add: OpenDeviceHandle_def conn_Open_def SetUpdateCallback_def
      SetConfig_def FactoryReset_def ForceRecalibration_def SetSensorTestMode_def\<close>)

lemma run_no_readback:
  assumes "\<not> m_bHaveConfig s"
    and "\<not> list_ex is_readback (conn_read_buffers (m_pConnection s))"
    and "\<not> list_ex call_readback calls"
  shows "\<not> m_bHaveConfig (run calls s)"
proof -
  have "\<not> m_bHaveConfig (foldl exec_call s calls)
    \<and> \<not> list_ex is_readback (conn_read_buffers (m_pConnection (foldl exec_call s calls)))"
    using assms
  proof (induction calls arbitrary: s)
    case Nil
    then show ?case by simp
  next
    case (Cons c calls)
    have step: "\<not> m_bHaveConfig (exec_call s c)
      \<and> \<not> list_ex is_readback (conn_read_buffers (m_pConnection (exec_call s c)))"
      using Cons.prems by (intro exec_call_no_readback) simp_all
    show ?case
      using Cons.IH [of "exec_call s c"] step Cons.prems(3) by simp
  qed
  then show ?thesis
    by (simp add: run_def)
qed

lemma exec_call_in_flight:
  assumes "writes_in_flight s \<le> (if m_bSendingConfig s then 1 else 0)"
  shows "writes_in_flight (exec_call s c) \<le> (if m_bSendingConfig (exec_call s c) then 1 else 0)"
proof (cases c)
  case (CallUpdate now io failed)
  then show ?thesis
    using Update_in_flight [OF assms] by simp
next
  case CallCloseDevice
  then show ?thesis
    by (simp add: CloseDevice_def conn_Close_def writes_in_flight_def)
qed (use assms in \<open>auto simp add: OpenDeviceHandle_def conn_Open_def SetUpdateCallback_def
      SetConfig_def FactoryReset_def ForceRecalibration_def SetSensorTestMode_def
      writes_in_flight_def split: if_splits\<close>)

lemma run_in_flight:
  assumes "writes_in_flight s \<le> (if m_bSendingConfig s then 1 else 0)"
  shows "writes_in_flight (run calls s) \<le> (if m_bSendingConfig (run calls s) then 1 else 0)"
  unfolding run_def using assms
proof (induction calls arbitrary: s)
  case Nil
  then show ?case by simp
next
  case (Cons c calls)
  show ?case
    using Cons.IH [OF exec_call_in_flight [OF Cons.prems]] by simp
qed


section \<open>Writing the configuration\<close>

text \<open>
  C1. \<^verbatim>\<open>SendConfig\<close> changes nothing when no configuration has been read back, when no
  write is pending or when a write is in flight (nor when the device is not connected).
  Otherwise, on a connected device, it queues exactly one write command, \<^verbatim>\<open>w\<close>, the
  size byte and the bytes of the wanted configuration (the size byte is the length when
  this is below 256), whose completion clears the in-flight flag; it sets the in-flight
  flag, makes the wanted configuration the confirmed one, clears the pending flag, and
  queues one readback request. In every run from a state with at most one write in flight
  there is at most one write in flight, and none when the flag is clear. Two calls of
  \<^verbatim>\<open>SetConfig\<close> before the step give one write command, carrying the second value, and
  the next step sends nothing; while a write is in flight no step sends anything, and the
  step after its completion sends one write carrying the second value.
\<close>

theorem C1_SendConfig_one_write:
  "(\<not> conn_IsConnected (m_pConnection s) \<or> \<not> m_bHaveConfig s \<or> \<not> m_bSendConfig s \<or> m_bSendingConfig s
      \<longrightarrow> SendConfig s = s)
   \<and> (conn_IsConnected (m_pConnection s) \<and> m_bHaveConfig s \<and> m_bSendConfig s \<and> \<not> m_bSendingConfig s
      \<longrightarrow> SendConfig s =
           s\<lparr>m_pConnection := (m_pConnection s)\<lparr>conn_pending_commands :=
                conn_pending_commands (m_pConnection s) @
                  [([0x77] @ [of_nat (length (wanted_config s))] @ wanted_config s, SendConfigComplete),
                   ([0x67, 0x0A], NoCompletion)]\<rparr>,
             m_bSendConfig := False,
             m_bSendingConfig := True,
             config := wanted_config s,
             event_signals := (if m_hEvent s then event_signals s + 2 else event_signals s)\<rparr>)
   \<and> (length (wanted_config s) < 256
      \<longrightarrow> unat (of_nat (length (wanted_config s)) :: byte) = length (wanted_config s))
   \<and> run_completion SendConfigComplete s = s\<lparr>m_bSendingConfig := False\<rparr>
   \<and> (writes_in_flight s \<le> (if m_bSendingConfig s then 1 else 0)
      \<longrightarrow> (\<forall>calls. writes_in_flight (run calls s) \<le> 1
            \<and> (\<not> m_bSendingConfig (run calls s) \<longrightarrow> writes_in_flight (run calls s) = 0)))
   \<and> (conn_IsConnected (m_pConnection s) \<and> m_bHaveConfig s \<and> \<not> m_bSendingConfig s
      \<longrightarrow> conn_pending_commands (m_pConnection (SendConfig (SetConfig b (SetConfig a s)))) =
            conn_pending_commands (m_pConnection s) @
              [([0x77] @ [of_nat (length b)] @ b, SendConfigComplete), ([0x67, 0x0A], NoCompletion)]
          \<and> SendConfig (SendConfig (SetConfig b (SetConfig a s))) = SendConfig (SetConfig b (SetConfig a s)))
   \<and> (m_bSendingConfig s
      \<longrightarrow> SendConfig (SetConfig b (SetConfig a s)) = SetConfig b (SetConfig a s)
          \<and> SendConfig (SetConfig b (SendConfig (SetConfig a s))) = SetConfig b (SetConfig a s))
   \<and> (conn_IsConnected (m_pConnection s) \<and> m_bHaveConfig s \<and> m_bSendingConfig s
      \<longrightarrow> conn_pending_commands (m_pConnection
              (SendConfig (run_completion SendConfigComplete (SetConfig b (SetConfig a s))))) =
            conn_pending_commands (m_pConnection s) @
              [([0x77] @ [of_nat (length b)] @ b, SendConfigComplete), ([0x67, 0x0A], NoCompletion)])"
proof -
  have idle: "\<not> conn_IsConnected (m_pConnection s) \<or> \<not> m_bHaveConfig s \<or> \<not> m_bSendConfig s
      \<or> m_bSendingConfig s \<longrightarrow> SendConfig s = s"
    using SendConfig_idle [of s] by blast
  have writes: "conn_IsConnected (m_pConnection s) \<and> m_bHaveConfig s \<and> m_bSendConfig s
      \<and> \<not> m_bSendingConfig s
      \<longrightarrow> SendConfig s =
           s\<lparr>m_pConnection := (m_pConnection s)\<lparr>conn_pending_commands :=
                conn_pending_commands (m_pConnection s) @
                  [([0x77] @ [of_nat (length (wanted_config s))] @ wanted_config s, SendConfigComplete),
                   ([0x67, 0x0A], NoCompletion)]\<rparr>,
             m_bSendConfig := False,
             m_bSendingConfig := True,
             config := wanted_config s,
             event_signals := (if m_hEvent s then event_signals s + 2 else event_signals s)\<rparr>"
    using SendConfig_writes [of s] by (simp add: write_command_def cmd_g_def)
  have size: "length (wanted_config s) < 256
      \<longrightarrow> unat (of_nat (length (wanted_config s)) :: byte) = length (wanted_config s)"
    by (simp add: unat_of_nat take_bit_nat_eq_self)
  have compl: "run_completion SendConfigComplete s = s\<lparr>m_bSendingConfig := False\<rparr>"
    by (simp add: run_completion_def)
  have inv: "writes_in_flight (run calls s) \<le> 1
            \<and> (\<not> m_bSendingConfig (run calls s) \<longrightarrow> writes_in_flight (run calls s) = 0)"
    if "writes_in_flight s \<le> (if m_bSendingConfig s then 1 else 0)" for calls
    using run_in_flight [OF that, of calls] by (simp split: if_splits)
  have twice: "conn_pending_commands (m_pConnection (SendConfig (SetConfig b (SetConfig a s)))) =
            conn_pending_commands (m_pConnection s) @
              [([0x77] @ [of_nat (length b)] @ b, SendConfigComplete), ([0x67, 0x0A], NoCompletion)]
          \<and> SendConfig (SendConfig (SetConfig b (SetConfig a s))) = SendConfig (SetConfig b (SetConfig a s))"
    if "conn_IsConnected (m_pConnection s) \<and> m_bHaveConfig s \<and> \<not> m_bSendingConfig s"
  proof -
    let ?s2 = "SetConfig b (SetConfig a s)"
    have w: "SendConfig ?s2 =
       ?s2\<lparr>m_pConnection := (m_pConnection ?s2)\<lparr>conn_pending_commands :=
            conn_pending_commands (m_pConnection ?s2) @
              [(write_command (wanted_config ?s2), SendConfigComplete), (cmd_g, NoCompletion)]\<rparr>,
         m_bSendConfig := False,
         m_bSendingConfig := True,
         config := wanted_config ?s2,
         event_signals := (if m_hEvent ?s2 then event_signals ?s2 + 2 else event_signals ?s2)\<rparr>"
      using that by (intro SendConfig_writes) (simp_all add: SetConfig_def)
    have 1: "conn_pending_commands (m_pConnection (SendConfig ?s2)) =
            conn_pending_commands (m_pConnection s) @
              [([0x77] @ [of_nat (length b)] @ b, SendConfigComplete), ([0x67, 0x0A], NoCompletion)]"
      unfolding w by (simp add: SetConfig_def write_command_def cmd_g_def)
    have "m_bSendingConfig (SendConfig ?s2)"
      unfolding w by simp
    then have 2: "SendConfig (SendConfig ?s2) = SendConfig ?s2"
      by (intro SendConfig_idle) simp
    show ?thesis using 1 2 by blast
  qed
  have flight: "SendConfig (SetConfig b (SetConfig a s)) = SetConfig b (SetConfig a s)
          \<and> SendConfig (SetConfig b (SendConfig (SetConfig a s))) = SetConfig b (SetConfig a s)"
    if "m_bSendingConfig s"
  proof -
    have 1: "SendConfig (SetConfig b (SetConfig a s)) = SetConfig b (SetConfig a s)"
      using that by (intro SendConfig_idle) (simp add: SetConfig_def)
    have "SendConfig (SetConfig a s) = SetConfig a s"
      using that by (intro SendConfig_idle) (simp add: SetConfig_def)
    then show ?thesis using 1 by simp
  qed
  have after: "conn_pending_commands (m_pConnection
              (SendConfig (run_completion SendConfigComplete (SetConfig b (SetConfig a s))))) =
            conn_pending_commands (m_pConnection s) @
              [([0x77] @ [of_nat (length b)] @ b, SendConfigComplete), ([0x67, 0x0A], NoCompletion)]"
    if "conn_IsConnected (m_pConnection s) \<and> m_bHaveConfig s \<and> m_bSendingConfig s"
  proof -
    let ?s2 = "run_completion SendConfigComplete (SetConfig b (SetConfig a s))"
    have w: "SendConfig ?s2 =
       ?s2\<lparr>m_pConnection := (m_pConnection ?s2)\<lparr>conn_pending_commands :=
            conn_pending_commands (m_pConnection ?s2) @
              [(write_command (wanted_config ?s2), SendConfigComplete), (cmd_g, NoCompletion)]\<rparr>,
         m_bSendConfig := False,
         m_bSendingConfig := True,
         config := wanted_config ?s2,
         event_signals := (if m_hEvent ?s2 then event_signals ?s2 + 2 else event_signals ?s2)\<rparr>"
      using that by (intro SendConfig_writes) (simp_all add: SetConfig_def run_completion_def)
    show ?thesis
      unfolding w by (simp add: SetConfig_def write_command_def cmd_g_def run_completion_def)
  qed
  show ?thesis
    using idle writes size compl inv twice flight after by blast
qed


text \<open>
  On the connected example device: two configurations set, one write of the second;
  a second step sends nothing; a run with two writes never has two in flight.
\<close>

theorem C1_SendConfig_one_write_witness:
  "conn_pending_commands (m_pConnection
      (SendConfig (SetConfig [5, 6, 7, 8] (SetConfig [9, 9, 9, 9] connected_device)))) =
     [([0x77, 0x04, 5, 6, 7, 8], SendConfigComplete), ([0x67, 0x0A], NoCompletion)]
   \<and> SendConfig (SendConfig (SetConfig [5, 6, 7, 8] (SetConfig [9, 9, 9, 9] connected_device))) =
       SendConfig (SetConfig [5, 6, 7, 8] (SetConfig [9, 9, 9, 9] connected_device))
   \<and> writes_in_flight
       (run [CallSetConfig [9, 9, 9, 9], CallUpdate 2 [] False, CallSetConfig [5, 6, 7, 8],
             CallUpdate 3 [] False, CallUpdate 4 [IoSendComplete] False, CallUpdate 5 [] False]
          connected_device) \<le> 1"
proof -
  note inst = C1_SendConfig_one_write
    [where s = connected_device and a = "[9, 9, 9, 9]" and b = "[5, 6, 7, 8]"]
  have pre: "conn_IsConnected (m_pConnection connected_device) \<and> m_bHaveConfig connected_device
      \<and> \<not> m_bSendingConfig connected_device"
    by (simp add: connected_device_value conn_IsConnected_def)
  have pending: "conn_pending_commands (m_pConnection connected_device) = []"
    by (simp add: connected_device_value)
  have inv0: "writes_in_flight connected_device \<le> (if m_bSendingConfig connected_device then 1 else 0)"
    by (simp add: connected_device_value writes_in_flight_def)
  have twice: "conn_pending_commands (m_pConnection
      (SendConfig (SetConfig [5, 6, 7, 8] (SetConfig [9, 9, 9, 9] connected_device)))) =
     conn_pending_commands (m_pConnection connected_device) @
       [([0x77] @ [of_nat (length [5, 6, 7, 8 :: byte])] @ [5, 6, 7, 8], SendConfigComplete),
        ([0x67, 0x0A], NoCompletion)]
   \<and> SendConfig (SendConfig (SetConfig [5, 6, 7, 8] (SetConfig [9, 9, 9, 9] connected_device))) =
       SendConfig (SetConfig [5, 6, 7, 8] (SetConfig [9, 9, 9, 9] connected_device))"
    using inst pre by blast
  have inv: "writes_in_flight
       (run [CallSetConfig [9, 9, 9, 9], CallUpdate 2 [] False, CallSetConfig [5, 6, 7, 8],
             CallUpdate 3 [] False, CallUpdate 4 [IoSendComplete] False, CallUpdate 5 [] False]
          connected_device) \<le> 1"
    using inst inv0 by blast
  show ?thesis
    using twice inv by (simp add: pending)
qed


section \<open>Reading and setting the configuration, and closing\<close>

text \<open>
  C2. For every configuration \<open>c\<close>, \<^verbatim>\<open>SetConfig\<close> stores \<open>c\<close> as the wanted
  configuration and sets the pending flag, whatever the state, and leaves the connection
  and its queues alone; \<^verbatim>\<open>GetConfig\<close> gives the wanted configuration while the flag
  is set and the confirmed one otherwise, so \<open>c\<close> right after \<^verbatim>\<open>SetConfig\<close>. When
  \<open>c\<close> is the confirmed configuration and nothing was pending, the flag is set all the
  same and the next step queues one write and one readback request. The value
  \<^verbatim>\<open>GetConfig\<close> returns is false in every run that starts without a configuration and
  in which no well-formed readback arrives, and \<^verbatim>\<open>HandlePackets\<close> makes it true
  exactly when it was true or a well-formed readback is queued.
\<close>

theorem C2_SetConfig_GetConfig:
  "SetConfig c s = s\<lparr>wanted_config := c, m_bSendConfig := True\<rparr>
   \<and> wanted_config (SetConfig c s) = c
   \<and> m_bSendConfig (SetConfig c s)
   \<and> m_pConnection (SetConfig c s) = m_pConnection s
   \<and> GetConfig s = (if m_bSendConfig s then wanted_config s else config s, m_bHaveConfig s)
   \<and> GetConfig (SetConfig c s) = (c, m_bHaveConfig s)
   \<and> (c = config s \<and> \<not> m_bSendConfig s \<and> conn_IsConnected (m_pConnection s)
        \<and> m_bHaveConfig s \<and> \<not> m_bSendingConfig s
      \<longrightarrow> m_bSendConfig (SetConfig c s)
          \<and> conn_pending_commands (m_pConnection (SendConfig (SetConfig c s))) =
              conn_pending_commands (m_pConnection s) @
                [([0x77] @ [of_nat (length c)] @ c, SendConfigComplete), ([0x67, 0x0A], NoCompletion)])
   \<and> (\<not> m_bHaveConfig s \<and> \<not> list_ex is_readback (conn_read_buffers (m_pConnection s))
      \<longrightarrow> (\<forall>calls. \<not> list_ex call_readback calls \<longrightarrow> \<not> snd (GetConfig (run calls s))))
   \<and> snd (GetConfig (HandlePackets s)) =
        (m_bHaveConfig s \<or> list_ex is_readback (conn_read_buffers (m_pConnection s)))"
proof -
  have set: "SetConfig c s = s\<lparr>wanted_config := c, m_bSendConfig := True\<rparr>"
    by (simp add: SetConfig_def)
  have get: "GetConfig s = (if m_bSendConfig s then wanted_config s else config s, m_bHaveConfig s)"
    by (simp add: GetConfig_def)
  have getset: "GetConfig (SetConfig c s) = (c, m_bHaveConfig s)"
    by (simp add: GetConfig_def SetConfig_def)
  have same: "m_bSendConfig (SetConfig c s)
          \<and> conn_pending_commands (m_pConnection (SendConfig (SetConfig c s))) =
              conn_pending_commands (m_pConnection s) @
                [([0x77] @ [of_nat (length c)] @ c, SendConfigComplete), ([0x67, 0x0A], NoCompletion)]"
    if "c = config s \<and> \<not> m_bSendConfig s \<and> conn_IsConnected (m_pConnection s)
        \<and> m_bHaveConfig s \<and> \<not> m_bSendingConfig s"
  proof -
    let ?s1 = "SetConfig c s"
    have w: "SendConfig ?s1 =
       ?s1\<lparr>m_pConnection := (m_pConnection ?s1)\<lparr>conn_pending_commands :=
            conn_pending_commands (m_pConnection ?s1) @
              [(write_command (wanted_config ?s1), SendConfigComplete), (cmd_g, NoCompletion)]\<rparr>,
         m_bSendConfig := False,
         m_bSendingConfig := True,
         config := wanted_config ?s1,
         event_signals := (if m_hEvent ?s1 then event_signals ?s1 + 2 else event_signals ?s1)\<rparr>"
      using that by (intro SendConfig_writes) (simp_all add: SetConfig_def)
    show ?thesis
      unfolding w by (simp add: SetConfig_def write_command_def cmd_g_def)
  qed
  have until: "\<not> snd (GetConfig (run calls s))"
    if "\<not> m_bHaveConfig s \<and> \<not> list_ex is_readback (conn_read_buffers (m_pConnection s))"
      "\<not> list_ex call_readback calls" for calls
    using run_no_readback [of s calls] that by (simp add: GetConfig_def)
  have readback: "snd (GetConfig (HandlePackets s)) =
        (m_bHaveConfig s \<or> list_ex is_readback (conn_read_buffers (m_pConnection s)))"
    by (simp add: GetConfig_def HandlePackets_have_config)
  show ?thesis
    unfolding set [symmetric] using set get getset same until readback
    by (simp add: SetConfig_def)
qed

text \<open>
  The confirmed configuration set again on the connected example device; a run of the
  unconnected example device with no readback; the connected device has a configuration.
\<close>

theorem C2_SetConfig_GetConfig_witness:
  "GetConfig (SetConfig [1, 2, 3, 4] connected_device) = ([1, 2, 3, 4], True)
   \<and> conn_pending_commands (m_pConnection (SendConfig (SetConfig [1, 2, 3, 4] connected_device))) =
       [([0x77, 0x04, 1, 2, 3, 4], SendConfigComplete), ([0x67, 0x0A], NoCompletion)]
   \<and> \<not> snd (GetConfig (run [CallOpenDeviceHandle True, CallUpdate 0 [IoDeviceInfo False] False,
                              CallSetConfig [7, 7, 7, 7]] example_device))
   \<and> snd (GetConfig connected_device)"
proof -
  note inst = C2_SetConfig_GetConfig [where s = connected_device and c = "[1, 2, 3, 4]"]
  note inst0 = C2_SetConfig_GetConfig [where s = example_device and c = "[1, 2, 3, 4]"]
  have pre: "[1, 2, 3, 4] = config connected_device \<and> \<not> m_bSendConfig connected_device
      \<and> conn_IsConnected (m_pConnection connected_device)
      \<and> m_bHaveConfig connected_device \<and> \<not> m_bSendingConfig connected_device"
    by (simp add: connected_device_value conn_IsConnected_def)
  have pending: "conn_pending_commands (m_pConnection connected_device) = []"
    by (simp add: connected_device_value)
  have a: "GetConfig (SetConfig [1, 2, 3, 4] connected_device) = ([1, 2, 3, 4], m_bHaveConfig connected_device)"
    using inst by blast
  have b: "conn_pending_commands (m_pConnection (SendConfig (SetConfig [1, 2, 3, 4] connected_device))) =
       conn_pending_commands (m_pConnection connected_device) @
         [([0x77] @ [of_nat (length [1, 2, 3, 4 :: byte])] @ [1, 2, 3, 4], SendConfigComplete),
          ([0x67, 0x0A], NoCompletion)]"
    using inst pre by blast
  have pre0: "\<not> m_bHaveConfig example_device
      \<and> \<not> list_ex is_readback (conn_read_buffers (m_pConnection example_device))"
    by (simp add: example_device_def example_connection_def)
  have calls: "\<not> list_ex call_readback [CallOpenDeviceHandle True, CallUpdate 0 [IoDeviceInfo False] False,
      CallSetConfig [7, 7, 7, 7]]"
    by simp
  have c: "\<not> snd (GetConfig (run [CallOpenDeviceHandle True, CallUpdate 0 [IoDeviceInfo False] False,
                              CallSetConfig [7, 7, 7, 7]] example_device))"
    using inst0 pre0 calls by blast
  have d: "snd (GetConfig connected_device)"
    by (simp add: GetConfig_def connected_device_value)
  have hc: "m_bHaveConfig connected_device"
    using pre by blast
  show ?thesis
    using a b c d by (simp add: pending hc)
qed

text \<open>
  C8. \<^verbatim>\<open>CloseDevice\<close> clears the have-configuration flag and the pending flag and calls
  the registered callback, if there is one, once with the reason Updated. After it
  \<^verbatim>\<open>IsConnectedLocked\<close> is false and \<^verbatim>\<open>GetConfig\<close> returns false, and they stay so in
  every run in which no well-formed readback arrives. \<^verbatim>\<open>IsConnectedLocked\<close> is the
  conjunction of an open connection, a read identity and a configuration read back.
\<close>

theorem C8_CloseDevice_resets:
  "\<not> m_bHaveConfig (CloseDevice s)
   \<and> \<not> m_bSendConfig (CloseDevice s)
   \<and> callback_calls (CloseDevice s) =
       (if m_pUpdateCallback s
        then callback_calls s @ [(if conn_bP2 (m_pConnection s) then 1 else 0, SMXUpdateCallback_Updated)]
        else callback_calls s)
   \<and> \<not> IsConnectedLocked (CloseDevice s)
   \<and> \<not> snd (GetConfig (CloseDevice s))
   \<and> (\<forall>calls. \<not> list_ex call_readback calls \<longrightarrow>
         \<not> IsConnectedLocked (run calls (CloseDevice s))
         \<and> \<not> snd (GetConfig (run calls (CloseDevice s))))
   \<and> IsConnectedLocked s =
       (conn_open (m_pConnection s) \<and> conn_have_info (m_pConnection s) \<and> m_bHaveConfig s)"
proof -
  have a: "\<not> m_bHaveConfig (CloseDevice s)" "\<not> m_bSendConfig (CloseDevice s)"
    by (simp_all add: CloseDevice_def)
  have q: "\<not> list_ex is_readback (conn_read_buffers (m_pConnection (CloseDevice s)))"
    by (simp add: CloseDevice_def conn_Close_def)
  have cb: "callback_calls (CloseDevice s) =
       (if m_pUpdateCallback s
        then callback_calls s @ [(if conn_bP2 (m_pConnection s) then 1 else 0, SMXUpdateCallback_Updated)]
        else callback_calls s)"
    by (simp add: CloseDevice_def CallUpdateCallback_def conn_Close_def)
  have until: "\<not> m_bHaveConfig (run calls (CloseDevice s))" if "\<not> list_ex call_readback calls" for calls
    using run_no_readback [OF a(1) q that] .
  have conn: "IsConnectedLocked t =
       (conn_open (m_pConnection t) \<and> conn_have_info (m_pConnection t) \<and> m_bHaveConfig t)" for t
    by (simp add: IsConnectedLocked_def conn_IsConnectedWithDeviceInfo_def)
  show ?thesis
    using a cb until conn by (simp add: GetConfig_def)
qed


text \<open>
  The connected example device is closed: one more callback, not connected; reopened,
  it has no configuration until the readback of the second call of \<^verbatim>\<open>Update\<close>.
\<close>

theorem C8_CloseDevice_resets_witness:
  "IsConnectedLocked connected_device
   \<and> \<not> IsConnectedLocked (CloseDevice connected_device)
   \<and> callback_calls (CloseDevice connected_device) =
       [(0, SMXUpdateCallback_Updated), (0, SMXUpdateCallback_Updated)]
   \<and> \<not> snd (GetConfig (run [CallOpenDeviceHandle True, CallUpdate 7 [IoDeviceInfo False] False]
                          (CloseDevice connected_device)))
   \<and> IsConnectedLocked (run [CallOpenDeviceHandle True, CallUpdate 7 [IoDeviceInfo False] False,
                              CallUpdate 8 [IoPacket [0x67, 0x04, 1, 2, 3, 4]] False]
                          (CloseDevice connected_device))"
proof -
  note inst = C8_CloseDevice_resets [where s = connected_device]
  have a: "IsConnectedLocked connected_device"
    by (simp add: connected_device_value IsConnectedLocked_def conn_IsConnectedWithDeviceInfo_def)
  have b: "\<not> IsConnectedLocked (CloseDevice connected_device)"
    using inst by blast
  have "callback_calls (CloseDevice connected_device) =
       (if m_pUpdateCallback connected_device
        then callback_calls connected_device @
          [(if conn_bP2 (m_pConnection connected_device) then 1 else 0, SMXUpdateCallback_Updated)]
        else callback_calls connected_device)"
    using inst by blast
  then have c: "callback_calls (CloseDevice connected_device) =
       [(0, SMXUpdateCallback_Updated), (0, SMXUpdateCallback_Updated)]"
    by (simp add: connected_device_value)
  have calls: "\<not> list_ex call_readback [CallOpenDeviceHandle True, CallUpdate 7 [IoDeviceInfo False] False]"
    by simp
  have d: "\<not> snd (GetConfig (run [CallOpenDeviceHandle True, CallUpdate 7 [IoDeviceInfo False] False]
                          (CloseDevice connected_device)))"
    using inst calls by blast
  have e: "IsConnectedLocked (run [CallOpenDeviceHandle True, CallUpdate 7 [IoDeviceInfo False] False,
                              CallUpdate 8 [IoPacket [0x67, 0x04, 1, 2, 3, 4]] False]
                          (CloseDevice connected_device))"
    unfolding connected_device_value by code_simp
  show ?thesis
    using a b c d e by blast
qed


section \<open>Decoding the panels of a sensor test response\<close>

lemma one_bit_field:
  "(drop_bit k b AND 1 \<noteq> 0) = bit b k" "(drop_bit k b AND 1 = 1) = bit b k" for b :: byte
  by (simp_all add: bit_iff_odd_drop_bit and_one_eq mod_2_eq_odd)

lemma one_bit_field0:
  "(b AND 1 \<noteq> 0) = bit b 0" "(b AND 1 = 1) = bit b 0" for b :: byte
  using one_bit_field [of 0 b] by simp_all

lemma four_bit_field: "bit (b AND 15) j = (j < 4 \<and> bit b j)" for b :: byte
proof -
  have m: "(15 :: byte) = mask 4"
    by (simp add: mask_eq_exp_minus_1)
  show ?thesis
    unfolding m bit_and_iff bit_mask_iff by (auto dest: bit_imp_le_length)
qed

lemma panel_byte_bit:
  "i < 10 \<Longrightarrow>
   bit (ReadDataForPanel data p sizeof_detail_data ! i) j = (j < 8 \<and> spec_panel_bit data p (8 * i + j))"
  by (simp add: ReadDataForPanel_bit sizeof_detail_data_def)

lemma panel_data_header:
  "header_valid (panel_data data p) = spec_header_ok data p"
  by (auto simp add: header_valid_def panel_data_def overlay_detail_data_def spec_header_ok_def
      one_bit_field one_bit_field0 panel_byte_bit bit_simps numeral_2_eq_2)

lemma panel_data_bad:
  "(bad_sensor_0 (panel_data data p) \<noteq> 0) = spec_panel_bit data p 3"
  "(bad_sensor_1 (panel_data data p) \<noteq> 0) = spec_panel_bit data p 4"
  "(bad_sensor_2 (panel_data data p) \<noteq> 0) = spec_panel_bit data p 5"
  "(bad_sensor_3 (panel_data data p) \<noteq> 0) = spec_panel_bit data p 6"
  by (simp_all add: panel_data_def overlay_detail_data_def one_bit_field panel_byte_bit bit_simps)

lemma panel_data_dip:
  "bit (dip (panel_data data p)) j = (j < 4 \<and> spec_panel_bit data p (72 + j))"
  by (auto simp: panel_data_def overlay_detail_data_def four_bit_field panel_byte_bit)

lemma panel_data_sensors_length: "length (sensors (panel_data data p)) = 4"
  by (simp add: panel_data_def overlay_detail_data_def)

lemma panel_data_sensors:
  assumes "k < 4"
  shows "bit (sensors (panel_data data p) ! k) j = (j < 16 \<and> spec_panel_bit data p (8 + 16 * k + j))"
proof -
  from assms consider "k = 0" | "k = 1" | "k = 2" | "k = 3"
    by linarith
  then show ?thesis
  proof cases
    case 1
    then show ?thesis
      by (auto simp: panel_data_def overlay_detail_data_def le16_bit panel_byte_bit)
  next
    case 2
    then show ?thesis
      by (auto simp: panel_data_def overlay_detail_data_def le16_bit panel_byte_bit)
  next
    case 3
    then show ?thesis
      by (auto simp: panel_data_def overlay_detail_data_def le16_bit panel_byte_bit)
  next
    case 4
    then show ?thesis
      by (auto simp: panel_data_def overlay_detail_data_def le16_bit panel_byte_bit)
  qed
qed


lemma list4_update:
  "length ys = 4 \<Longrightarrow> ys[0 := a, Suc 0 := b, 2 := c, 3 := d] = [a, b, c, d]"
  by (auto simp: numeral_eq_Suc length_Suc_conv)

lemma upt_0_4: "[0..<4] = [0, Suc 0, 2, 3]"
  by (simp add: upt_rec numeral_eq_Suc)

lemma sensors_list:
  "sensors (panel_data data p) =
     [sensors (panel_data data p) ! 0, sensors (panel_data data p) ! Suc 0,
      sensors (panel_data data p) ! 2, sensors (panel_data data p) ! 3]"
  by (simp add: panel_data_def overlay_detail_data_def)

lemma decode_panel_invalid:
  "\<not> header_valid (panel_data data p) \<Longrightarrow>
   decode_panel data out p = out\<lparr>bHaveDataFromPanel := (bHaveDataFromPanel out)[p := False]\<rparr>"
  by (simp add: decode_panel_def header_valid_def panel_data_def Let_def)

lemma decode_panel_valid:
  assumes "header_valid (panel_data data p)"
    and "p < length (bBadSensorInput out)" "length (bBadSensorInput out ! p) = 4"
    and "p < length (sensorLevel out)" "length (sensorLevel out ! p) = 4"
  shows "decode_panel data out p =
     out\<lparr>bHaveDataFromPanel := (bHaveDataFromPanel out)[p := True],
         bBadSensorInput := (bBadSensorInput out)[p :=
           [bad_sensor_0 (panel_data data p) \<noteq> 0, bad_sensor_1 (panel_data data p) \<noteq> 0,
            bad_sensor_2 (panel_data data p) \<noteq> 0, bad_sensor_3 (panel_data data p) \<noteq> 0]],
         iDIPSwitchPerPanel := (iDIPSwitchPerPanel out)[p := uint (dip (panel_data data p))],
         sensorLevel := (sensorLevel out)[p := sensors (panel_data data p)]\<rparr>"
proof -
  let ?pad = "panel_data data p"
  have bad: "(bBadSensorInput out ! p)[0 := bad_sensor_0 ?pad \<noteq> 0, Suc 0 := bad_sensor_1 ?pad \<noteq> 0,
      2 := bad_sensor_2 ?pad \<noteq> 0, 3 := bad_sensor_3 ?pad \<noteq> 0] =
      [bad_sensor_0 ?pad \<noteq> 0, bad_sensor_1 ?pad \<noteq> 0, bad_sensor_2 ?pad \<noteq> 0, bad_sensor_3 ?pad \<noteq> 0]"
    by (rule list4_update [OF assms(3)])
  have lev: "(sensorLevel out ! p)[0 := sensors ?pad ! 0, Suc 0 := sensors ?pad ! Suc 0,
      2 := sensors ?pad ! 2, 3 := sensors ?pad ! 3] = sensors ?pad"
    using list4_update [OF assms(5)] sensors_list [of data p] by simp
  have "decode_panel data out p =
     out\<lparr>bHaveDataFromPanel := (bHaveDataFromPanel out)[p := True],
         bBadSensorInput := (bBadSensorInput out)[p :=
           (bBadSensorInput out ! p)[0 := bad_sensor_0 ?pad \<noteq> 0, Suc 0 := bad_sensor_1 ?pad \<noteq> 0,
              2 := bad_sensor_2 ?pad \<noteq> 0, 3 := bad_sensor_3 ?pad \<noteq> 0]],
         iDIPSwitchPerPanel := (iDIPSwitchPerPanel out)[p := uint (dip ?pad)],
         sensorLevel := (sensorLevel out)[p :=
           (sensorLevel out ! p)[0 := sensors ?pad ! 0, Suc 0 := sensors ?pad ! Suc 0,
              2 := sensors ?pad ! 2, 3 := sensors ?pad ! 3]]\<rparr>"
    using assms(1,2,4)
    by (simp add: decode_panel_def header_valid_def panel_data_def [symmetric] Let_def
        set_bad_sensor_def set_sensor_level_def upt_0_4)
  then show ?thesis
    by (simp only: bad lev)
qed


lemma zeroed_output_sized: "output_sized (zeroed_output d)"
  by (simp add: output_sized_def zeroed_output_def)

lemma zeroed_output_view:
  "i < 9 \<Longrightarrow> panel_view (zeroed_output d) i = (False, replicate 4 0, replicate 4 False, 0)"
  by (simp add: panel_view_def zeroed_output_def)

lemma zeroed_output_const: "zeroed_output d = zeroed_output d'"
  by (simp add: zeroed_output_def)

lemma decode_panel_view:
  assumes "output_sized out" and "p < 9"
    and "panel_view out p = (False, replicate 4 0, replicate 4 False, 0)"
  shows "output_sized (decode_panel data out p)"
    and "i < 9 \<Longrightarrow> panel_view (decode_panel data out p) i =
          (if i = p then decoded_panel data p else panel_view out i)"
proof -
  have len: "p < length (bBadSensorInput out)" "length (bBadSensorInput out ! p) = 4"
    "p < length (sensorLevel out)" "length (sensorLevel out ! p) = 4"
    "p < length (bHaveDataFromPanel out)" "p < length (iDIPSwitchPerPanel out)"
    using assms by (simp_all add: output_sized_def panel_view_def)
  show "output_sized (decode_panel data out p)"
  proof (cases "header_valid (panel_data data p)")
    case True
    show ?thesis
      unfolding decode_panel_valid [OF True len(1-4)] using assms(1) by (simp add: output_sized_def)
  next
    case False
    show ?thesis
      unfolding decode_panel_invalid [OF False] using assms(1) by (simp add: output_sized_def)
  qed
  show "panel_view (decode_panel data out p) i =
          (if i = p then decoded_panel data p else panel_view out i)" if "i < 9"
  proof (cases "header_valid (panel_data data p)")
    case True
    show ?thesis
      unfolding decode_panel_valid [OF True len(1-4)] using len True
      by (simp add: panel_view_def decoded_panel_def)
  next
    case False
    show ?thesis
      unfolding decode_panel_invalid [OF False] using len False assms(3)
      by (auto simp: panel_view_def decoded_panel_def)
  qed
qed

lemma decode_panels_view:
  assumes "n \<le> 9"
  shows "output_sized (foldl (decode_panel data) (zeroed_output d) [0..<n])
    \<and> (\<forall>i<9. panel_view (foldl (decode_panel data) (zeroed_output d) [0..<n]) i =
          (if i < n then decoded_panel data i else (False, replicate 4 0, replicate 4 False, 0)))"
  using assms
proof (induction n)
  case 0
  show ?case
    by (simp add: zeroed_output_sized zeroed_output_view)
next
  case (Suc n)
  let ?F = "foldl (decode_panel data) (zeroed_output d) [0..<n]"
  have IH: "output_sized ?F"
    "\<And>i. i < 9 \<Longrightarrow> panel_view ?F i =
        (if i < n then decoded_panel data i else (False, replicate 4 0, replicate 4 False, 0))"
    using Suc by simp_all
  have n9: "n < 9" using Suc.prems by simp
  have fresh: "panel_view ?F n = (False, replicate 4 0, replicate 4 False, 0)"
    using IH(2) [OF n9] by simp
  have step: "foldl (decode_panel data) (zeroed_output d) [0..<Suc n] = decode_panel data ?F n"
    by simp
  show ?case
    unfolding step
    using decode_panel_view(1) [OF IH(1) n9 fresh, where data = data]
      decode_panel_view(2) [OF IH(1) n9 fresh, where data = data] IH(2)
    by (auto simp: less_Suc_eq)
qed


lemma accepted_response:
  assumes "3 \<le> length sReadBuffer"
    and "unat (response_iSize sReadBuffer) + 3 \<le> length sReadBuffer"
    and "m_WaitingForSensorTestModeResponse s \<noteq> SensorTestMode_Off"
    and "sint (sReadBuffer ! 1) = m_WaitingForSensorTestModeResponse s"
    and "sint (sReadBuffer ! 1) = m_SensorTestMode s"
  shows "HandleSensorTestDataResponse sReadBuffer s =
     CallUpdateCallback SMXUpdateCallback_Updated
       (s\<lparr>m_WaitingForSensorTestModeResponse := SensorTestMode_Off,
          m_HaveSensorTestModeData := True,
          m_SensorTestData :=
            foldl (decode_panel (response_data sReadBuffer)) (zeroed_output (m_SensorTestData s)) [0..<9]\<rparr>)"
  using assms by (simp add: HandleSensorTestDataResponse_def Let_def)

lemma all_bits_clear_word: "(\<And>j. \<not> bit w j) \<Longrightarrow> w = 0" for w :: "'a::len word"
  by (rule bit_eqI) simp

lemma all_bits_clear_int: "(\<And>j. \<not> bit k j) \<Longrightarrow> k = 0" for k :: int
  by (rule bit_eqI) simp

lemma decoded_panel_spec:
  "fst (decoded_panel data p) = spec_header_ok data p"
  "spec_header_ok data p \<Longrightarrow>
     fst (snd (snd (decoded_panel data p))) =
       [spec_panel_bit data p 3, spec_panel_bit data p 4, spec_panel_bit data p 5, spec_panel_bit data p 6]"
  "spec_header_ok data p \<Longrightarrow> length (fst (snd (decoded_panel data p))) = 4"
  "spec_header_ok data p \<Longrightarrow> k < 4 \<Longrightarrow>
     bit (fst (snd (decoded_panel data p)) ! k) j = (j < 16 \<and> spec_panel_bit data p (8 + 16 * k + j))"
  "spec_header_ok data p \<Longrightarrow>
     bit (snd (snd (snd (decoded_panel data p)))) j = (j < 4 \<and> spec_panel_bit data p (72 + j))"
  "\<not> spec_header_ok data p \<Longrightarrow>
     decoded_panel data p = (False, replicate 4 0, replicate 4 False, 0)"
  by (auto simp add: decoded_panel_def panel_data_header panel_data_bad panel_data_sensors
      panel_data_sensors_length panel_data_dip bit_uint_iff)

text \<open>
  C4. When a sensor test response is accepted (whole packet, a request outstanding, the
  echoed mode is the awaited and the selected mode), the test data are marked as present
  and are a function of the words of the packet alone: whatever the data were before, the
  result is the same. The four arrays have 9 entries. For each panel \<open>p\<close> below 9, with
  the bits of its stream numbered from 0: the have-data flag is set exactly when bits 0,
  1, 2 are 0, 1, 0; then the four bad-sensor flags are bits 3 to 6 (bit 7 is not used),
  bit \<open>j\<close> of reading \<open>k\<close> is bit \<open>8 + 16 * k + j\<close>, and the DIP value is bits 72 to
  75 (bits 76 to 79 are not used); otherwise the flags, the readings and the DIP value of
  the panel are zero, while the other panels are decoded as said. In particular a panel
  with header 0, 1, 0 and every other bit 0 has data, readings 0, flags false and DIP 0,
  and a panel with header 1, 1, 0 has no data and zero entries.
\<close>

theorem C4_sensor_test_decoding:
  assumes "3 \<le> length sReadBuffer"
    and "unat (response_iSize sReadBuffer) + 3 \<le> length sReadBuffer"
    and "m_WaitingForSensorTestModeResponse s \<noteq> SensorTestMode_Off"
    and "sint (sReadBuffer ! 1) = m_WaitingForSensorTestModeResponse s"
    and "sint (sReadBuffer ! 1) = m_SensorTestMode s"
    and "out = m_SensorTestData (HandleSensorTestDataResponse sReadBuffer s)"
    and "data = response_data sReadBuffer"
  shows "m_HaveSensorTestModeData (HandleSensorTestDataResponse sReadBuffer s)
    \<and> out = m_SensorTestData (HandleSensorTestDataResponse sReadBuffer (s\<lparr>m_SensorTestData := previous\<rparr>))
    \<and> length (bHaveDataFromPanel out) = 9 \<and> length (sensorLevel out) = 9
    \<and> length (bBadSensorInput out) = 9 \<and> length (iDIPSwitchPerPanel out) = 9
    \<and> (\<forall>p<9.
          bHaveDataFromPanel out ! p =
            (\<not> spec_panel_bit data p 0 \<and> spec_panel_bit data p 1 \<and> \<not> spec_panel_bit data p 2)
          \<and> (bHaveDataFromPanel out ! p \<longrightarrow>
                bBadSensorInput out ! p =
                  [spec_panel_bit data p 3, spec_panel_bit data p 4,
                   spec_panel_bit data p 5, spec_panel_bit data p 6]
                \<and> length (sensorLevel out ! p) = 4
                \<and> (\<forall>k<4. \<forall>j. bit (sensorLevel out ! p ! k) j =
                      (j < 16 \<and> spec_panel_bit data p (8 + 16 * k + j)))
                \<and> (\<forall>j. bit (iDIPSwitchPerPanel out ! p) j = (j < 4 \<and> spec_panel_bit data p (72 + j))))
          \<and> (\<not> bHaveDataFromPanel out ! p \<longrightarrow>
                bBadSensorInput out ! p = [False, False, False, False]
                \<and> sensorLevel out ! p = [0, 0, 0, 0]
                \<and> iDIPSwitchPerPanel out ! p = 0)
          \<and> ((\<forall>k. spec_panel_bit data p k = (k = 1)) \<longrightarrow>
                bHaveDataFromPanel out ! p
                \<and> sensorLevel out ! p = [0, 0, 0, 0]
                \<and> bBadSensorInput out ! p = [False, False, False, False]
                \<and> iDIPSwitchPerPanel out ! p = 0)
          \<and> (spec_panel_bit data p 0 \<and> spec_panel_bit data p 1 \<and> \<not> spec_panel_bit data p 2 \<longrightarrow>
                \<not> bHaveDataFromPanel out ! p
                \<and> sensorLevel out ! p = [0, 0, 0, 0]
                \<and> bBadSensorInput out ! p = [False, False, False, False]
                \<and> iDIPSwitchPerPanel out ! p = 0))"
proof -
  have out: "out = foldl (decode_panel data) (zeroed_output (m_SensorTestData s)) [0..<9]"
    using accepted_response [OF assms(1-5)] assms(6,7) by (simp add: CallUpdateCallback_def)
  have have_data: "m_HaveSensorTestModeData (HandleSensorTestDataResponse sReadBuffer s)"
    using accepted_response [OF assms(1-5)] by (simp add: CallUpdateCallback_def)
  have "m_SensorTestData (HandleSensorTestDataResponse sReadBuffer (s\<lparr>m_SensorTestData := previous\<rparr>))
      = foldl (decode_panel data) (zeroed_output previous) [0..<9]"
    using accepted_response [of sReadBuffer "s\<lparr>m_SensorTestData := previous\<rparr>"] assms(1-5,7)
    by (simp add: CallUpdateCallback_def)
  then have fresh: "out = m_SensorTestData
      (HandleSensorTestDataResponse sReadBuffer (s\<lparr>m_SensorTestData := previous\<rparr>))"
    using out zeroed_output_const [of previous "m_SensorTestData s"] by simp
  note inv = decode_panels_view [of 9 data "m_SensorTestData s", folded out, simplified]
  have sized: "length (bHaveDataFromPanel out) = 9 \<and> length (sensorLevel out) = 9
    \<and> length (bBadSensorInput out) = 9 \<and> length (iDIPSwitchPerPanel out) = 9"
    using inv by (simp add: output_sized_def)
  have panel: "bHaveDataFromPanel out ! p =
            (\<not> spec_panel_bit data p 0 \<and> spec_panel_bit data p 1 \<and> \<not> spec_panel_bit data p 2)
          \<and> (bHaveDataFromPanel out ! p \<longrightarrow>
                bBadSensorInput out ! p =
                  [spec_panel_bit data p 3, spec_panel_bit data p 4,
                   spec_panel_bit data p 5, spec_panel_bit data p 6]
                \<and> length (sensorLevel out ! p) = 4
                \<and> (\<forall>k<4. \<forall>j. bit (sensorLevel out ! p ! k) j =
                      (j < 16 \<and> spec_panel_bit data p (8 + 16 * k + j)))
                \<and> (\<forall>j. bit (iDIPSwitchPerPanel out ! p) j = (j < 4 \<and> spec_panel_bit data p (72 + j))))
          \<and> (\<not> bHaveDataFromPanel out ! p \<longrightarrow>
                bBadSensorInput out ! p = [False, False, False, False]
                \<and> sensorLevel out ! p = [0, 0, 0, 0]
                \<and> iDIPSwitchPerPanel out ! p = 0)
          \<and> ((\<forall>k. spec_panel_bit data p k = (k = 1)) \<longrightarrow>
                bHaveDataFromPanel out ! p
                \<and> sensorLevel out ! p = [0, 0, 0, 0]
                \<and> bBadSensorInput out ! p = [False, False, False, False]
                \<and> iDIPSwitchPerPanel out ! p = 0)
          \<and> (spec_panel_bit data p 0 \<and> spec_panel_bit data p 1 \<and> \<not> spec_panel_bit data p 2 \<longrightarrow>
                \<not> bHaveDataFromPanel out ! p
                \<and> sensorLevel out ! p = [0, 0, 0, 0]
                \<and> bBadSensorInput out ! p = [False, False, False, False]
                \<and> iDIPSwitchPerPanel out ! p = 0)" if p: "p < 9" for p
  proof -
    have view: "panel_view out p = decoded_panel data p"
      using inv p by simp
    have hd: "bHaveDataFromPanel out ! p = spec_header_ok data p"
      using decoded_panel_spec(1) [of data p] by (simp add: view [symmetric] panel_view_def)
    have ok: "bBadSensorInput out ! p =
                  [spec_panel_bit data p 3, spec_panel_bit data p 4,
                   spec_panel_bit data p 5, spec_panel_bit data p 6]
                \<and> length (sensorLevel out ! p) = 4
                \<and> (\<forall>k<4. \<forall>j. bit (sensorLevel out ! p ! k) j =
                      (j < 16 \<and> spec_panel_bit data p (8 + 16 * k + j)))
                \<and> (\<forall>j. bit (iDIPSwitchPerPanel out ! p) j = (j < 4 \<and> spec_panel_bit data p (72 + j)))"
      if h: "spec_header_ok data p"
      using decoded_panel_spec(2-5) [OF h] by (simp add: view [symmetric] panel_view_def)
    have bad: "bBadSensorInput out ! p = [False, False, False, False]
                \<and> sensorLevel out ! p = [0, 0, 0, 0]
                \<and> iDIPSwitchPerPanel out ! p = 0"
      if h: "\<not> spec_header_ok data p"
      using decoded_panel_spec(6) [OF h]
      by (simp add: view [symmetric] panel_view_def numeral_eq_Suc)
    have zero: "bHaveDataFromPanel out ! p
                \<and> sensorLevel out ! p = [0, 0, 0, 0]
                \<and> bBadSensorInput out ! p = [False, False, False, False]
                \<and> iDIPSwitchPerPanel out ! p = 0"
      if only: "\<forall>k. spec_panel_bit data p k = (k = 1)"
    proof -
      have h: "spec_header_ok data p"
        using only by (simp add: spec_header_ok_def)
      note o = ok [OF h]
      have lev: "sensorLevel out ! p ! k = 0" if "k < 4" for k
        using o that only by (intro all_bits_clear_word) simp
      have "sensorLevel out ! p = [0, 0, 0, 0]"
        using o lev by (simp add: list_eq_iff_nth_eq less_Suc_eq numeral_eq_Suc)
      moreover have "iDIPSwitchPerPanel out ! p = 0"
        using o only by (intro all_bits_clear_int) simp
      moreover have "bBadSensorInput out ! p = [False, False, False, False]"
        using o only by simp
      ultimately show ?thesis
        using hd h by simp
    qed
    have h110: "\<not> spec_header_ok data p"
      if "spec_panel_bit data p 0 \<and> spec_panel_bit data p 1 \<and> \<not> spec_panel_bit data p 2"
      using that by (simp add: spec_header_ok_def)
    show ?thesis
      using hd ok bad zero h110 unfolding spec_header_ok_def by blast
  qed
  show ?thesis
    using have_data fresh sized panel by blast
qed


text \<open>
  The device holds data for all nine panels and awaits mode \<^verbatim>\<open>'1'\<close>. A response of
  three words gives panel 0 the header 0, 1, 0, panel 1 the header 1, 1, 0 and the other
  panels 0, 0, 0: afterwards only panel 0 has data, and every entry is zero.
\<close>

theorem C4_sensor_test_decoding_witness:
  "bHaveDataFromPanel (m_SensorTestData testing_device) = replicate 9 True
   \<and> m_SensorTestData (HandleSensorTestDataResponse
         [0x79, 0x31, 0x03, 0x02, 0x00, 0x03, 0x00, 0x00, 0x00] testing_device) =
       \<lparr>bHaveDataFromPanel = [True, False, False, False, False, False, False, False, False],
        sensorLevel = replicate 9 [0, 0, 0, 0],
        bBadSensorInput = replicate 9 [False, False, False, False],
        iDIPSwitchPerPanel = replicate 9 0\<rparr>
   \<and> bHaveDataFromPanel (m_SensorTestData (HandleSensorTestDataResponse
         [0x79, 0x31, 0x03, 0x02, 0x00, 0x03, 0x00, 0x00, 0x00] testing_device)) ! 0
   \<and> \<not> bHaveDataFromPanel (m_SensorTestData (HandleSensorTestDataResponse
         [0x79, 0x31, 0x03, 0x02, 0x00, 0x03, 0x00, 0x00, 0x00] testing_device)) ! 1"
proof -
  let ?buf = "[0x79, 0x31, 0x03, 0x02, 0x00, 0x03, 0x00, 0x00, 0x00] :: packet"
  have data: "response_data ?buf = [0x0002, 0x0003, 0x0000]"
    by code_simp
  have pre: "3 \<le> length ?buf" "unat (response_iSize ?buf) + 3 \<le> length ?buf"
    "m_WaitingForSensorTestModeResponse testing_device \<noteq> SensorTestMode_Off"
    "sint (?buf ! 1) = m_WaitingForSensorTestModeResponse testing_device"
    "sint (?buf ! 1) = m_SensorTestMode testing_device"
    by (simp_all add: response_iSize_def testing_device_value SensorTestMode_Off_def)
  note inst = C4_sensor_test_decoding [OF pre refl data [symmetric], of "m_SensorTestData example_device"]
  have panels: "\<forall>p<9. bHaveDataFromPanel (m_SensorTestData
        (HandleSensorTestDataResponse ?buf testing_device)) ! p =
      (\<not> spec_panel_bit [0x0002, 0x0003, 0x0000] p 0 \<and> spec_panel_bit [0x0002, 0x0003, 0x0000] p 1
       \<and> \<not> spec_panel_bit [0x0002, 0x0003, 0x0000] p 2)"
    using inst by blast
  have p0: "bHaveDataFromPanel (m_SensorTestData (HandleSensorTestDataResponse ?buf testing_device)) ! 0"
    using panels by (simp add: spec_panel_bit_def)
  have p1: "\<not> bHaveDataFromPanel (m_SensorTestData (HandleSensorTestDataResponse ?buf testing_device)) ! 1"
    using panels by (simp add: spec_panel_bit_def)
  have ev: "m_SensorTestData (HandleSensorTestDataResponse ?buf testing_device) =
       \<lparr>bHaveDataFromPanel = [True, False, False, False, False, False, False, False, False],
        sensorLevel = replicate 9 [0, 0, 0, 0],
        bBadSensorInput = replicate 9 [False, False, False, False],
        iDIPSwitchPerPanel = replicate 9 0\<rparr>"
    unfolding testing_device_value by code_simp
  have old: "bHaveDataFromPanel (m_SensorTestData testing_device) = replicate 9 True"
    by (simp add: testing_device_value)
  show ?thesis
    using old ev p0 p1 by blast
qed

end
